theory Spec2Isabelle
  imports Main "HOL-Library.Word"
begin

unbundle bit_operations_syntax

section \<open>The Ethernet PubSub channel of the lwIP port\<close>

text \<open>
  A shallow embedding of \<^verbatim>\<open>plugins/ua_pubsub_ethernet_lwip.c\<close>. C integers are
  words of their width, byte arrays and \<^verbatim>\<open>UA_String\<close> contents are lists, an
  out-parameter is passed in and handed back, and every call that leaves the file (the
  logger, lwIP, the raw sender) is recorded in a list of events.
\<close>

subsection \<open>Scalar types and constants\<close>

type_synonym UA_Byte = "8 word"
type_synonym UA_UInt16 = "16 word"
type_synonym UA_UInt32 = "32 word"

text \<open>The two status codes the file returns.\<close>

datatype UA_StatusCode = UA_STATUSCODE_GOOD | UA_STATUSCODE_BADINTERNALERROR

definition ETH_ALEN :: nat where
  "ETH_ALEN = 6"

definition ETHERTYPE_UADP :: UA_UInt16 where
  "ETHERTYPE_UADP = 0xb62c"

definition ETHERTYPE_VLAN :: UA_UInt16 where
  "ETHERTYPE_VLAN = 0x8100"

subsection \<open>Reading a number\<close>

text \<open>
  Modelled from the spec: \<^verbatim>\<open>UA_readNumberWithBase\<close> belongs to the library's utility
  code and is not part of this file. Section 4.1 of the spec has \<^verbatim>\<open>Parse\<close> "parse a
  base-16 number" for each group and then "require it to fit in a byte", and its examples
  use digits of either case. So the reader takes the longest run of digits of the base at
  the front of the buffer, returns how many characters it took (0 when the buffer starts
  with no digit) and delivers their value in the caller's \<^verbatim>\<open>UA_UInt32\<close>.
\<close>

definition digit_of :: "char \<Rightarrow> nat option" where
  "digit_of c =
     (let n = (of_char c :: nat) in
      if 48 \<le> n \<and> n \<le> 57 then Some (n - 48)
      else if 97 \<le> n \<and> n \<le> 102 then Some (n - 87)
      else if 65 \<le> n \<and> n \<le> 70 then Some (n - 55)
      else None)"

definition is_digit :: "nat \<Rightarrow> char \<Rightarrow> bool" where
  "is_digit base c = (case digit_of c of None \<Rightarrow> False | Some d \<Rightarrow> d < base)"

fun readNumber_loop :: "string \<Rightarrow> nat \<Rightarrow> UA_UInt32 \<Rightarrow> nat \<Rightarrow> nat \<times> UA_UInt32" where
  "readNumber_loop [] base n progress = (progress, n)"
| "readNumber_loop (c # cs) base n progress =
     (if is_digit base c
      then readNumber_loop cs base (n * of_nat base + of_nat (the (digit_of c))) (progress + 1)
      else (progress, n))"

definition UA_readNumberWithBase :: "string \<Rightarrow> nat \<Rightarrow> nat \<times> UA_UInt32" where
  "UA_readNumberWithBase buf base = readNumber_loop buf base 0 0"

subsection \<open>Parsing a hardware address\<close>

text \<open>
  \<^verbatim>\<open>UA_parseHardwareAddress(target, destinationMac)\<close>. The loop is a function of
  \<open>cur\<close> (the source's \<^verbatim>\<open>curr\<close>), \<open>idx\<close> and the destination array; it ends either
  by a \<^verbatim>\<open>return\<close> inside the body (\<open>Inl\<close> the status) or by leaving the loop with the value of \<open>idx\<close>
  (\<open>Inr\<close>), through \<^verbatim>\<open>break\<close> or through the loop condition. The bytes written so far
  stay in the destination array on every path.
\<close>

function parse_loop ::
  "string \<Rightarrow> nat \<Rightarrow> nat \<Rightarrow> UA_Byte list \<Rightarrow> (UA_StatusCode + nat) \<times> UA_Byte list" where
  "parse_loop target cur idx destinationMac =
     (if idx < ETH_ALEN then
        (case UA_readNumberWithBase (drop cur target) 16 of
           (progress, val) \<Rightarrow>
             if progress = 0 \<or> val > 0xff then (Inl UA_STATUSCODE_BADINTERNALERROR, destinationMac)
             else
               (let mac = destinationMac[idx := ucast val]; curr2 = cur + progress in
                if curr2 = length target then (Inr idx, mac)
                else if target ! curr2 \<noteq> CHR ''-'' then (Inl UA_STATUSCODE_BADINTERNALERROR, mac)
                else parse_loop target (curr2 + 1) (idx + 1) mac))
      else (Inr idx, destinationMac))"
  by pat_completeness auto
termination
  by (relation "measure (\<lambda>(target, cur, idx, mac). ETH_ALEN - idx)") auto

declare parse_loop.simps [simp del]

definition UA_parseHardwareAddress :: "string \<Rightarrow> UA_Byte list \<Rightarrow> UA_StatusCode \<times> UA_Byte list" where
  "UA_parseHardwareAddress target destinationMac =
     (case parse_loop target 0 0 destinationMac of
        (Inl status, mac) \<Rightarrow> (status, mac)
      | (Inr idx, mac) \<Rightarrow>
          if idx \<noteq> ETH_ALEN - 1 then (UA_STATUSCODE_BADINTERNALERROR, mac)
          else (UA_STATUSCODE_GOOD, mac))"

subsection \<open>Multicast classification\<close>

text \<open>\<^verbatim>\<open>is_multicast_address\<close>: the loop over the six bytes, from index \<open>i\<close> on.\<close>

function is_multicast_loop :: "UA_Byte list \<Rightarrow> nat \<Rightarrow> bool" where
  "is_multicast_loop address i =
     (if i < ETH_ALEN then
        (if address ! i \<noteq> 0xff then True else is_multicast_loop address (i + 1))
      else False)"
  by pat_completeness auto
termination
  by (relation "measure (\<lambda>(address, i). ETH_ALEN - i)") auto

declare is_multicast_loop.simps [simp del]

definition is_multicast_address :: "UA_Byte list \<Rightarrow> bool" where
  "is_multicast_address address =
     (if (address ! 0) AND 1 = 0 then False else is_multicast_loop address 0)"

subsection \<open>Channel data\<close>

text \<open>
  Modelled from the spec: the enumeration \<^verbatim>\<open>UA_PubSubChannelState\<close> is declared in a
  header outside this file. Section 3 of the spec lists its six values; the four that the
  file tests keep the names the file uses.
\<close>

datatype UA_PubSubChannelState =
    UA_PUBSUB_CHANNEL_UNCONFIGURED
  | UA_PUBSUB_CHANNEL_PUB
  | UA_PUBSUB_CHANNEL_SUB
  | UA_PUBSUB_CHANNEL_PUB_SUB
  | UA_PUBSUB_CHANNEL_RDY
  | UA_PUBSUB_CHANNEL_ERROR

record UA_PubSubChannelDataEthernet =
  ifindex :: int
  vid :: UA_UInt16
  prio :: UA_Byte
  ifAddress :: "UA_Byte list"
  targetAddress :: "UA_Byte list"

text \<open>
  A channel: its state and what \<^verbatim>\<open>handle\<close> points to, together with the two heap
  blocks that hold the channel object and the handle.
\<close>

record UA_PubSubChannel =
  state :: UA_PubSubChannelState
  handle :: UA_PubSubChannelDataEthernet
  handle_block :: nat
  channel_block :: nat

record UA_NetworkAddressUrlDataType =
  networkInterface :: string
  url :: string

text \<open>
  The variant in \<^verbatim>\<open>connectionConfig->address\<close>: either a scalar of type
  \<^verbatim>\<open>UA_NetworkAddressUrlDataType\<close> (what \<^verbatim>\<open>UA_Variant_hasScalarType\<close> tests) or
  anything else.
\<close>

datatype UA_Variant =
    Variant_NetworkAddressUrl UA_NetworkAddressUrlDataType
  | Variant_Other

record UA_PubSubConnectionConfig =
  address :: UA_Variant

subsection \<open>The heap\<close>

text \<open>
  \<^verbatim>\<open>UA_calloc\<close> and \<^verbatim>\<open>UA_free\<close> on a heap of blocks: the blocks in use, how many
  more the allocator can hand out, and the next fresh block. An allocation fails exactly
  when no block is left.
\<close>

record heap =
  live :: "nat list"
  capacity :: nat
  fresh :: nat

definition UA_calloc :: "heap \<Rightarrow> nat option \<times> heap" where
  "UA_calloc h =
     (if capacity h = 0 then (None, h)
      else (Some (fresh h),
            h\<lparr>live := fresh h # live h, capacity := capacity h - 1, fresh := fresh h + 1\<rparr>))"

definition UA_free :: "nat \<Rightarrow> heap \<Rightarrow> heap" where
  "UA_free b h =
     (if b \<in> set (live h) then h\<lparr>live := remove1 b (live h), capacity := capacity h + 1\<rparr>
      else h)"

subsection \<open>lwIP and the other collaborators\<close>

text \<open>
  The VLAN header as the code fills it (\<^verbatim>\<open>struct eth_vlan_hdr\<close>), a frame buffer
  (\<^verbatim>\<open>struct pbuf\<close>: the header that \<^verbatim>\<open>pbuf_add_header\<close> put in front of the data, if
  any, and the data) and a network interface with its hardware address.
\<close>

record eth_vlan_hdr =
  tpid :: UA_UInt16
  prio_vid :: UA_UInt16

record pbuf =
  vlanhdr :: "eth_vlan_hdr option"
  payload :: "UA_Byte list"
  type_internal :: UA_Byte

record netif =
  hwaddr :: "UA_Byte list"

text \<open>
  What the file calls and does not define is a parameter: whether \<^verbatim>\<open>pbuf_alloc\<close> finds
  a buffer of a length, the result of \<^verbatim>\<open>pbuf_add_header\<close> (0 on success), the macro
  \<^verbatim>\<open>htons\<close>, the two interface lookups (\<^verbatim>\<open>netif_name_to_index\<close> gives 0 for an
  unknown name, \<^verbatim>\<open>netif_get_by_index\<close> gives \<^verbatim>\<open>NULL\<close> for an unknown index), the result
  of \<^verbatim>\<open>UA_sendraw\<close> (which is handed the interface, \<^verbatim>\<open>NULL\<close> or not, and the address
  of its \<^verbatim>\<open>hwaddr\<close> array, no valid address when the interface is \<^verbatim>\<open>NULL\<close>), the URL parser \<^verbatim>\<open>UA_parseEndpointUrlEthernet\<close> (its status, the
  target string, the VLAN id and priority) and whether the platform's \<^verbatim>\<open>char\<close> is
  signed.
\<close>

record env =
  pbuf_alloc_ok :: "UA_UInt16 \<Rightarrow> bool"
  pbuf_add_header :: "pbuf \<Rightarrow> nat \<Rightarrow> UA_Byte"
  htons :: "UA_UInt16 \<Rightarrow> UA_UInt16"
  netif_name_to_index :: "string \<Rightarrow> UA_Byte"
  netif_get_by_index :: "UA_Byte \<Rightarrow> netif option"
  UA_sendraw ::
    "netif option \<Rightarrow> pbuf \<Rightarrow> UA_Byte list option \<Rightarrow> UA_Byte list \<Rightarrow> UA_UInt16 \<Rightarrow> int"
  UA_parseEndpointUrlEthernet :: "string \<Rightarrow> UA_StatusCode \<times> string \<times> UA_UInt16 \<times> UA_Byte"
  char_is_signed :: bool

definition SIZEOF_VLAN_HDR :: nat where
  "SIZEOF_VLAN_HDR = 4"

text \<open>
  \<^verbatim>\<open>pbuf_alloc(PBUF_LINK, len, PBUF_RAM)\<close>: a buffer of \<open>len\<close> bytes with nothing in
  front of them, or \<^verbatim>\<open>NULL\<close>. Its bytes are unspecified until they are written; they are
  zero here, and \<^verbatim>\<open>pbuf_take\<close> overwrites the first \<open>len\<close> of them. On \<^verbatim>\<open>NULL\<close>
  \<^verbatim>\<open>pbuf_take\<close> does nothing.
\<close>

definition pbuf_alloc :: "env \<Rightarrow> UA_UInt16 \<Rightarrow> pbuf option" where
  "pbuf_alloc e len =
     (if pbuf_alloc_ok e len
      then Some \<lparr>vlanhdr = None, payload = replicate (unat len) 0, type_internal = 0\<rparr>
      else None)"

definition pbuf_take :: "pbuf \<Rightarrow> UA_Byte list \<Rightarrow> UA_UInt16 \<Rightarrow> pbuf" where
  "pbuf_take p dat len = p\<lparr>payload := take (unat len) dat @ drop (unat len) (payload p)\<rparr>"

text \<open>Every call that leaves the file, in the order the code makes it.\<close>

datatype UA_LogLevel =
  UA_LOGLEVEL_DEBUG | UA_LOGLEVEL_INFO | UA_LOGLEVEL_WARNING | UA_LOGLEVEL_ERROR

datatype event =
    UA_LOG UA_LogLevel string "string list"
  | Printf string
  | Netif_name_to_index string
  | Pbuf_alloc UA_UInt16
  | Pbuf_take "UA_Byte list" UA_UInt16
  | Pbuf_add_header nat
  | Netif_get_by_index UA_Byte
  | Sendraw "netif option" pbuf "UA_Byte list option" "UA_Byte list" UA_UInt16
  | Pbuf_free

text \<open>The frames among the calls: what was handed to \<^verbatim>\<open>UA_sendraw\<close>, in order.\<close>

fun is_Sendraw :: "event \<Rightarrow> bool" where
  "is_Sendraw (Sendraw nif p src dst ty) = True"
| "is_Sendraw ev = False"

definition transmitted :: "event list \<Rightarrow> event list" where
  "transmitted evs = filter is_Sendraw evs"

subsection \<open>Open\<close>

text \<open>
  \<^verbatim>\<open>char index = netif_name_to_index("xe"); channelDataEthernet->ifindex = index;\<close>
  takes the \<^verbatim>\<open>u8_t\<close> result through a \<^verbatim>\<open>char\<close> into an \<^verbatim>\<open>int\<close>.
\<close>

definition char_to_int :: "env \<Rightarrow> UA_Byte \<Rightarrow> int" where
  "char_to_int e c = (if char_is_signed e then sint c else uint c)"

text \<open>
  \<^verbatim>\<open>UA_PubSubChannelEthernet_open\<close>: the channel or \<^verbatim>\<open>NULL\<close>, the heap afterwards
  and the calls made. \<^verbatim>\<open>UA_calloc\<close> hands out zeroed memory.
\<close>

definition UA_PubSubChannelEthernet_open ::
  "env \<Rightarrow> UA_PubSubConnectionConfig \<Rightarrow> heap \<Rightarrow> UA_PubSubChannel option \<times> heap \<times> event list" where
  "UA_PubSubChannelEthernet_open e connectionConfig h =
     (let ev0 = [UA_LOG UA_LOGLEVEL_INFO ''Open PubSub ethernet connection.'' []] in
      case UA_calloc h of
        (None, h1) \<Rightarrow>
          (None, h1,
           ev0 @ [UA_LOG UA_LOGLEVEL_ERROR ''PubSub Connection creation failed. Out of memory.'' []])
      | (Some blk, h1) \<Rightarrow>
          (let channelDataEthernet =
             \<lparr>ifindex = 0, vid = 0, prio = 0,
              ifAddress = replicate ETH_ALEN 0, targetAddress = replicate ETH_ALEN 0\<rparr> in
           case address connectionConfig of
             Variant_Other \<Rightarrow>
               (None, UA_free blk h1,
                ev0 @ [UA_LOG UA_LOGLEVEL_ERROR ''PubSub Connection creation failed. Invalid Address.'' []])
           | Variant_NetworkAddressUrl addr \<Rightarrow>
               (let ev1 = ev0 @
                  [UA_LOG UA_LOGLEVEL_DEBUG ''Specified Interface Name = %.*s'' [networkInterface addr],
                   UA_LOG UA_LOGLEVEL_DEBUG ''Specified Network Url = %.*s'' [url addr]] in
                case UA_parseEndpointUrlEthernet e (url addr) of
                  (st, target, v, p) \<Rightarrow>
                    if st \<noteq> UA_STATUSCODE_GOOD then
                      (None, UA_free blk h1,
                       ev1 @ [UA_LOG UA_LOGLEVEL_ERROR
                                ''PubSub Connection creation failed. Invalid Address URL.'' []])
                    else
                      (case UA_parseHardwareAddress target (targetAddress channelDataEthernet) of
                         (st2, mac) \<Rightarrow>
                           if st2 \<noteq> UA_STATUSCODE_GOOD then
                             (None, UA_free blk h1,
                              ev1 @ [UA_LOG UA_LOGLEVEL_ERROR
                                ''PubSub Connection creation failed. Invalid destination MAC address.'' []])
                           else
                             (case UA_calloc h1 of
                                (None, h2) \<Rightarrow>
                                  (None, UA_free blk h2,
                                   ev1 @ [UA_LOG UA_LOGLEVEL_ERROR
                                     ''PubSub Connection creation failed. Out of memory.'' []])
                              | (Some cblk, h2) \<Rightarrow>
                                  (let index = netif_name_to_index e ''xe'' in
                                   (Some \<lparr>state = UA_PUBSUB_CHANNEL_PUB,
                                          handle = channelDataEthernet
                                            \<lparr>vid := v, prio := p, targetAddress := mac,
                                             ifindex := char_to_int e index\<rparr>,
                                          handle_block = blk, channel_block = cblk\<rparr>,
                                    h2, ev1 @ [Netif_name_to_index ''xe''])))))))"

subsection \<open>Register, unregister, receive, close\<close>

text \<open>
  Each operation gives its status, the channel as the call leaves it and the calls it
  made. The transport settings and the callback are not used by the code. In
  \<^verbatim>\<open>regist\<close> and \<^verbatim>\<open>unregist\<close> the membership request that followed the multicast test is
  commented out in the source, so both branches of the test return at once.
\<close>

definition UA_PubSubChannelEthernet_regist ::
  "UA_PubSubChannel \<Rightarrow> UA_StatusCode \<times> UA_PubSubChannel \<times> event list" where
  "UA_PubSubChannelEthernet_regist channel =
     (if \<not> (state channel = UA_PUBSUB_CHANNEL_PUB \<or> state channel = UA_PUBSUB_CHANNEL_RDY) then
        (UA_STATUSCODE_BADINTERNALERROR, channel,
         [UA_LOG UA_LOGLEVEL_ERROR ''PubSub Connection regist failed.'' []])
      else
        (let channelDataEthernet = handle channel in
         if \<not> is_multicast_address (targetAddress channelDataEthernet) then
           (UA_STATUSCODE_GOOD, channel, [])
         else (UA_STATUSCODE_GOOD, channel, [])))"

definition UA_PubSubChannelEthernet_unregist ::
  "UA_PubSubChannel \<Rightarrow> UA_StatusCode \<times> UA_PubSubChannel \<times> event list" where
  "UA_PubSubChannelEthernet_unregist channel =
     (if \<not> (state channel = UA_PUBSUB_CHANNEL_PUB_SUB \<or> state channel = UA_PUBSUB_CHANNEL_SUB) then
        (UA_STATUSCODE_BADINTERNALERROR, channel,
         [UA_LOG UA_LOGLEVEL_ERROR ''PubSub Connection unregist failed.'' []])
      else
        (let channelDataEthernet = handle channel in
         if \<not> is_multicast_address (targetAddress channelDataEthernet) then
           (UA_STATUSCODE_GOOD, channel, [])
         else (UA_STATUSCODE_GOOD, channel, [])))"

definition UA_PubSubChannelEthernet_receive ::
  "UA_PubSubChannel \<Rightarrow> UA_UInt32 \<Rightarrow> UA_StatusCode \<times> UA_PubSubChannel \<times> event list" where
  "UA_PubSubChannelEthernet_receive channel timeout =
     (if \<not> (state channel = UA_PUBSUB_CHANNEL_PUB \<or> state channel = UA_PUBSUB_CHANNEL_PUB_SUB) then
        (UA_STATUSCODE_BADINTERNALERROR, channel,
         [UA_LOG UA_LOGLEVEL_ERROR ''PubSub Connection receive failed. Invalid state.'' []])
      else (UA_STATUSCODE_GOOD, channel, []))"

definition UA_PubSubChannelEthernet_close :: "UA_PubSubChannel \<Rightarrow> heap \<Rightarrow> UA_StatusCode \<times> heap" where
  "UA_PubSubChannelEthernet_close channel h =
     (UA_STATUSCODE_GOOD, UA_free (channel_block channel) (UA_free (handle_block channel) h))"

subsection \<open>Send\<close>

text \<open>
  The end of \<^verbatim>\<open>UA_PubSubChannelEthernet_send\<close>, from \<^verbatim>\<open>netif_get_by_index\<close> on, which
  both branches of the VLAN test reach: \<open>p\<close> is the frame buffer, \<open>eth_type\<close> the
  EtherType chosen and \<open>evs\<close> the calls made so far. The interface found is not tested:
  \<^verbatim>\<open>netif->hwaddr\<close> is an array member, so the code forms its address without reading
  the interface and calls \<^verbatim>\<open>UA_sendraw\<close> whether or not the interface is \<^verbatim>\<open>NULL\<close>.
\<close>

definition send_transmit ::
  "env \<Rightarrow> UA_PubSubChannel \<Rightarrow> pbuf \<Rightarrow> UA_UInt16 \<Rightarrow> event list \<Rightarrow>
   UA_StatusCode \<times> UA_PubSubChannel \<times> event list" where
  "send_transmit e channel p eth_type evs =
     (let channelDataEthernet = handle channel;
          idx = (word_of_int (ifindex channelDataEthernet) :: UA_Byte);
          nif = netif_get_by_index e idx;
          p2 = p\<lparr>type_internal := 0x80\<rparr>;
          src = map_option hwaddr nif;
          rc = UA_sendraw e nif p2 src (targetAddress channelDataEthernet) eth_type;
          evs2 = evs @ [Netif_get_by_index idx,
                        Sendraw nif p2 src (targetAddress channelDataEthernet) eth_type] in
      if rc < 0 then
        (UA_STATUSCODE_BADINTERNALERROR, channel,
         evs2 @ [UA_LOG UA_LOGLEVEL_ERROR
                   ''PubSub connection ethernet_output. Send message failed.'' [],
                 Pbuf_free])
      else (UA_STATUSCODE_GOOD, channel, evs2 @ [Pbuf_free]))"

text \<open>
  \<^verbatim>\<open>vlanTag = (UA_UInt16) (vid + (prio << 13))\<close>: both operands are promoted to
  \<^verbatim>\<open>int\<close>, where the sum is exact, and the cast keeps the low 16 bits.
\<close>

definition vlanTag :: "UA_UInt16 \<Rightarrow> UA_Byte \<Rightarrow> UA_UInt16" where
  "vlanTag v p = word_of_int (uint v + push_bit 13 (uint p))"

text \<open>The text of the two \<^verbatim>\<open>printf\<close> calls, which ends in a carriage return and a line feed.\<close>

definition pbuf_error_text :: string where
  "pbuf_error_text = ''pbuf error '' @ [CHR 0x0D, CHR 0x0A]"

text \<open>
  \<^verbatim>\<open>UA_PubSubChannelEthernet_send\<close>. The length goes to \<^verbatim>\<open>pbuf_alloc\<close> and
  \<^verbatim>\<open>pbuf_take\<close> as a \<^verbatim>\<open>u16_t\<close>; \<^verbatim>\<open>pbuf_take\<close> is called before the buffer is tested
  for \<^verbatim>\<open>NULL\<close>.
\<close>

definition UA_PubSubChannelEthernet_send ::
  "env \<Rightarrow> UA_PubSubChannel \<Rightarrow> UA_Byte list \<Rightarrow>
   UA_StatusCode \<times> UA_PubSubChannel \<times> event list" where
  "UA_PubSubChannelEthernet_send e channel buf =
     (let channelDataEthernet = handle channel in
      if \<not> (state channel = UA_PUBSUB_CHANNEL_PUB \<or> state channel = UA_PUBSUB_CHANNEL_PUB_SUB) then
        (UA_STATUSCODE_BADINTERNALERROR, channel,
         [UA_LOG UA_LOGLEVEL_WARNING ''PubSub Connection sending failed. Invalid state.'' []])
      else
        (let lenBuf = (of_nat (length buf) :: UA_UInt16);
             evs = [Pbuf_alloc lenBuf, Pbuf_take buf lenBuf] in
         case pbuf_alloc e lenBuf of
           None \<Rightarrow>
             (UA_STATUSCODE_BADINTERNALERROR, channel, evs @ [Printf pbuf_error_text])
         | Some p0 \<Rightarrow>
             (let p = pbuf_take p0 buf lenBuf in
              if vid channelDataEthernet = 0 then
                send_transmit e channel p ETHERTYPE_UADP evs
              else if pbuf_add_header e p SIZEOF_VLAN_HDR \<noteq> 0 then
                (UA_STATUSCODE_BADINTERNALERROR, channel,
                 evs @ [Pbuf_add_header SIZEOF_VLAN_HDR, Printf pbuf_error_text])
              else
                (let vlanhdr =
                   \<lparr>tpid = htons e ETHERTYPE_UADP,
                    prio_vid = htons e (vlanTag (vid channelDataEthernet) (prio channelDataEthernet))\<rparr> in
                 send_transmit e channel (p\<lparr>vlanhdr := Some vlanhdr\<rparr>) ETHERTYPE_VLAN
                   (evs @ [Pbuf_add_header SIZEOF_VLAN_HDR])))))"

subsection \<open>Sequences of calls\<close>

text \<open>
  The four operations a caller can invoke on an open channel, each in the environment of
  its moment, and a run of them: the channel is handed from call to call, and the
  statuses are collected.
\<close>

datatype call = Regist | Unregist | Send "UA_Byte list" | Receive UA_UInt32

fun step ::
  "env \<Rightarrow> UA_PubSubChannel \<Rightarrow> call \<Rightarrow> UA_StatusCode \<times> UA_PubSubChannel \<times> event list" where
  "step e channel Regist = UA_PubSubChannelEthernet_regist channel"
| "step e channel Unregist = UA_PubSubChannelEthernet_unregist channel"
| "step e channel (Send buf) = UA_PubSubChannelEthernet_send e channel buf"
| "step e channel (Receive timeout) = UA_PubSubChannelEthernet_receive channel timeout"

fun run ::
  "UA_PubSubChannel \<Rightarrow> (env \<times> call) list \<Rightarrow> UA_PubSubChannel \<times> UA_StatusCode list" where
  "run channel [] = (channel, [])"
| "run channel ((e, c) # cs) =
     (case step e channel c of
        (st, ch, evs) \<Rightarrow> (case run ch cs of (ch2, outs) \<Rightarrow> (ch2, st # outs)))"

subsection \<open>Writing a hardware address\<close>

text \<open>
  The file has no formatter; this is the canonical text of the spec (section 3): six
  pairs of hexadecimal digits separated by hyphens, in upper or lower case.
\<close>

definition hex_char :: "bool \<Rightarrow> nat \<Rightarrow> char" where
  "hex_char upper n =
     (if n < 10 then char_of (48 + n) else if upper then char_of (55 + n) else char_of (87 + n))"

definition hex_pair :: "bool \<Rightarrow> UA_Byte \<Rightarrow> string" where
  "hex_pair upper b = [hex_char upper (unat b div 16), hex_char upper (unat b mod 16)]"

fun join_hyphen :: "string list \<Rightarrow> string" where
  "join_hyphen [] = []"
| "join_hyphen [g] = g"
| "join_hyphen (g # g2 # gs) = g @ CHR ''-'' # join_hyphen (g2 # gs)"

definition format_mac :: "bool \<Rightarrow> UA_Byte list \<Rightarrow> string" where
  "format_mac upper a = join_hyphen (map (hex_pair upper) a)"

text \<open>
  A group of an address text: one or more hexadecimal digits, and the number they
  write.
\<close>

definition hex_group :: "string \<Rightarrow> bool" where
  "hex_group g = (g \<noteq> [] \<and> list_all (is_digit 16) g)"

definition group_value :: "string \<Rightarrow> nat" where
  "group_value g = foldl (\<lambda>n c. n * 16 + the (digit_of c)) 0 g"

text \<open>
  The address text as claim C5 words it: exactly six groups, split at the hyphens, each
  of one or two hexadecimal digits.
\<close>

fun split_hyphen :: "string \<Rightarrow> string list" where
  "split_hyphen [] = [[]]"
| "split_hyphen (c # cs) =
     (if c = CHR ''-'' then [] # split_hyphen cs
      else (case split_hyphen cs of [] \<Rightarrow> [[c]] | g # gs \<Rightarrow> (c # g) # gs))"

definition spec_address_text :: "string \<Rightarrow> bool" where
  "spec_address_text s =
     (let gs = split_hyphen s in
      length gs = 6 \<and>
      list_all (\<lambda>g. (length g = 1 \<or> length g = 2) \<and> list_all (is_digit 16) g) gs)"

subsection \<open>Why Open fails\<close>

text \<open>
  The reasons the spec lists for a failing Open, read off a configuration, an
  environment and a heap: no block for the channel data, an address of the wrong type, a
  URL the parser rejects, a target that is no hardware address, or no block for the
  channel object.
\<close>

definition open_fails :: "env \<Rightarrow> UA_PubSubConnectionConfig \<Rightarrow> heap \<Rightarrow> bool" where
  "open_fails e connectionConfig h =
     (capacity h = 0 \<or>
      (case address connectionConfig of
         Variant_Other \<Rightarrow> True
       | Variant_NetworkAddressUrl addr \<Rightarrow>
           (case UA_parseEndpointUrlEthernet e (url addr) of
              (st, target, v, p) \<Rightarrow>
                st \<noteq> UA_STATUSCODE_GOOD \<or>
                fst (UA_parseHardwareAddress target (replicate ETH_ALEN 0)) \<noteq> UA_STATUSCODE_GOOD \<or>
                capacity h = 1)))"

subsection \<open>A concrete environment\<close>

text \<open>
  Values to run the model on: a little-endian host with one interface \<^verbatim>\<open>xe\<close> of index
  1, on which every lwIP call succeeds; a URL parser that finds the target
  \<^verbatim>\<open>01-00-5E-00-00-01\<close>, VLAN id 100 and priority 5 in every URL; a configuration; a heap
  with room for four blocks; and the channel that Open builds from them.
\<close>

definition example_env :: env where
  "example_env =
     \<lparr>pbuf_alloc_ok = (\<lambda>len. True),
      pbuf_add_header = (\<lambda>p n. 0),
      htons = (\<lambda>x. push_bit 8 x OR drop_bit 8 x),
      netif_name_to_index = (\<lambda>name. if name = ''xe'' then 1 else 0),
      netif_get_by_index =
        (\<lambda>i. if i = 1 then Some \<lparr>hwaddr = [0x00, 0x0a, 0x35, 0x00, 0x01, 0x02]\<rparr> else None),
      UA_sendraw = (\<lambda>nif p src dst ty. 0),
      UA_parseEndpointUrlEthernet = (\<lambda>u. (UA_STATUSCODE_GOOD, ''01-00-5E-00-00-01'', 100, 5)),
      char_is_signed = False\<rparr>"

definition example_config :: UA_PubSubConnectionConfig where
  "example_config =
     \<lparr>address = Variant_NetworkAddressUrl
        \<lparr>networkInterface = ''eth0'', url = ''opc.eth://01-00-5E-00-00-01:100.5''\<rparr>\<rparr>"

definition example_heap :: heap where
  "example_heap = \<lparr>live = [], capacity = 4, fresh = 0\<rparr>"

definition example_channel :: UA_PubSubChannel where
  "example_channel =
     \<lparr>state = UA_PUBSUB_CHANNEL_PUB,
      handle = \<lparr>ifindex = 1, vid = 100, prio = 5,
                ifAddress = [0, 0, 0, 0, 0, 0],
                targetAddress = [0x01, 0x00, 0x5e, 0x00, 0x00, 0x01]\<rparr>,
      handle_block = 0, channel_block = 1\<rparr>"

section \<open>Properties\<close>

subsection \<open>Multicast classification\<close>

lemma and_one_cases: "(x :: UA_Byte) AND 1 = 0 \<or> x AND 1 = 1"
  by (metis and_one_eq even_iff_mod_2_eq_zero odd_iff_mod_2_eq_one)

lemma replicate_ETH_ALEN: "replicate ETH_ALEN x = [x, x, x, x, x, x]"
  by (simp add: ETH_ALEN_def numeral_eq_Suc)

lemma length_six: "length [b0, b1, b2, b3, b4, b5] = ETH_ALEN"
  by (simp add: ETH_ALEN_def)

text \<open>The loop answers whether some byte from index \<open>i\<close> on differs from \<open>0xff\<close>.\<close>

lemma is_multicast_loop_iff:
  "is_multicast_loop a i = (\<exists>j. i \<le> j \<and> j < ETH_ALEN \<and> a ! j \<noteq> 0xff)"
proof (induction a i rule: is_multicast_loop.induct)
  case (1 a i)
  show ?case
  proof (cases "i < ETH_ALEN")
    case False
    then show ?thesis by (subst is_multicast_loop.simps) auto
  next
    case True
    show ?thesis
    proof (cases "a ! i \<noteq> 0xff")
      case True
      with \<open>i < ETH_ALEN\<close> show ?thesis by (subst is_multicast_loop.simps) auto
    next
      case False
      then have eq: "a ! i = 0xff" by simp
      have "is_multicast_loop a i = is_multicast_loop a (i + 1)"
        using True eq by (subst is_multicast_loop.simps) simp
      also have "\<dots> = (\<exists>j. i + 1 \<le> j \<and> j < ETH_ALEN \<and> a ! j \<noteq> 0xff)"
        using "1.IH" True eq by simp
      also have "\<dots> = (\<exists>j. i \<le> j \<and> j < ETH_ALEN \<and> a ! j \<noteq> 0xff)"
        using eq by (metis Suc_eq_plus1 Suc_leD Suc_leI le_neq_implies_less)
      finally show ?thesis .
    qed
  qed
qed

lemma not_broadcast_iff:
  "length a = ETH_ALEN \<Longrightarrow>
   (a \<noteq> replicate ETH_ALEN 0xff) = (\<exists>j. j < ETH_ALEN \<and> a ! j \<noteq> 0xff)"
  by (auto simp: list_eq_iff_nth_eq)

lemma is_multicast_address_eq:
  "length a = ETH_ALEN \<Longrightarrow>
   is_multicast_address a = ((a ! 0) AND 1 = 1 \<and> a \<noteq> replicate ETH_ALEN 0xff)"
  using and_one_cases [of "a ! 0"] not_broadcast_iff [of a]
  by (auto simp: is_multicast_address_def is_multicast_loop_iff)

lemma is_multicast_example: "is_multicast_address [0x01, 0x00, 0x5e, 0x00, 0x00, 0x01]"
  using is_multicast_address_eq [OF length_six] by (simp add: replicate_ETH_ALEN)

text \<open>
  C6. For every 6-byte hardware address, \<^verbatim>\<open>is_multicast_address\<close> is true if and only
  if the least-significant bit of the first byte is 1 and the address is not the
  broadcast address FF-FF-FF-FF-FF-FF; it is false for FF-FF-FF-FF-FF-FF, true for
  01-00-5E-00-00-01 and false for 02-00-00-00-00-01.
\<close>

theorem is_multicast_address_iff:
  "(\<forall>a. length a = ETH_ALEN \<longrightarrow>
      is_multicast_address a = ((a ! 0) AND 1 = 1 \<and> a \<noteq> replicate ETH_ALEN 0xff))
   \<and> \<not> is_multicast_address [0xff, 0xff, 0xff, 0xff, 0xff, 0xff]
   \<and> is_multicast_address [0x01, 0x00, 0x5e, 0x00, 0x00, 0x01]
   \<and> \<not> is_multicast_address [0x02, 0x00, 0x00, 0x00, 0x00, 0x01]"
proof -
  note gen = is_multicast_address_eq
  have b: "\<not> is_multicast_address [0xff, 0xff, 0xff, 0xff, 0xff, 0xff]"
    using gen [OF length_six] by (simp add: replicate_ETH_ALEN)
  have m: "is_multicast_address [0x01, 0x00, 0x5e, 0x00, 0x00, 0x01]"
    using gen [OF length_six] by (simp add: replicate_ETH_ALEN)
  have u: "\<not> is_multicast_address [0x02, 0x00, 0x00, 0x00, 0x00, 0x01]"
    using gen [OF length_six] by (simp add: replicate_ETH_ALEN)
  from gen b m u show ?thesis by blast
qed

theorem is_multicast_address_iff_witness:
  "length [0x01, 0x1b, 0x19, 0x00, 0x00, 0x00 :: UA_Byte] = ETH_ALEN
   \<and> is_multicast_address [0x01, 0x1b, 0x19, 0x00, 0x00, 0x00]"
proof -
  have len: "length [0x01, 0x1b, 0x19, 0x00, 0x00, 0x00 :: UA_Byte] = ETH_ALEN"
    by (rule length_six)
  from is_multicast_address_iff len
  have "is_multicast_address [0x01, 0x1b, 0x19, 0x00, 0x00, 0x00] =
          (([0x01, 0x1b, 0x19, 0x00, 0x00, 0x00 :: UA_Byte] ! 0) AND 1 = 1
           \<and> [0x01, 0x1b, 0x19, 0x00, 0x00, 0x00 :: UA_Byte] \<noteq> replicate ETH_ALEN 0xff)"
    by blast
  then show ?thesis using len by (simp add: replicate_ETH_ALEN)
qed

subsection \<open>The model on the concrete environment\<close>

lemma parse_example:
  "UA_parseHardwareAddress ''01-00-5E-00-00-01'' [0, 0, 0, 0, 0, 0] =
     (UA_STATUSCODE_GOOD, [0x01, 0x00, 0x5e, 0x00, 0x00, 0x01])"
  by code_simp

lemma open_example:
  "UA_PubSubChannelEthernet_open example_env example_config example_heap =
     (Some example_channel, \<lparr>live = [1, 0], capacity = 2, fresh = 2\<rparr>,
      [UA_LOG UA_LOGLEVEL_INFO ''Open PubSub ethernet connection.'' [],
       UA_LOG UA_LOGLEVEL_DEBUG ''Specified Interface Name = %.*s'' [''eth0''],
       UA_LOG UA_LOGLEVEL_DEBUG ''Specified Network Url = %.*s''
         [''opc.eth://01-00-5E-00-00-01:100.5''],
       Netif_name_to_index ''xe''])"
  by (simp add: UA_PubSubChannelEthernet_open_def example_env_def example_config_def
      example_heap_def example_channel_def UA_calloc_def parse_example char_to_int_def
      replicate_ETH_ALEN Let_def)

lemma send_example:
  "UA_PubSubChannelEthernet_send example_env example_channel [1, 2, 3] =
     (UA_STATUSCODE_GOOD, example_channel,
      [Pbuf_alloc 3, Pbuf_take [1, 2, 3] 3, Pbuf_add_header 4, Netif_get_by_index 1,
       Sendraw (Some \<lparr>hwaddr = [0x00, 0x0a, 0x35, 0x00, 0x01, 0x02]\<rparr>)
         \<lparr>vlanhdr = Some \<lparr>tpid = 0x2cb6, prio_vid = 0x64a0\<rparr>, payload = [1, 2, 3],
          type_internal = 0x80\<rparr>
         (Some [0x00, 0x0a, 0x35, 0x00, 0x01, 0x02]) [0x01, 0x00, 0x5e, 0x00, 0x00, 0x01] 0x8100,
       Pbuf_free])"
  by (simp add: UA_PubSubChannelEthernet_send_def send_transmit_def example_env_def
      example_channel_def pbuf_alloc_def pbuf_take_def vlanTag_def ETHERTYPE_UADP_def
      ETHERTYPE_VLAN_def SIZEOF_VLAN_HDR_def Let_def)

subsection \<open>The VLAN tag\<close>

lemma vlanTag_plus: "vlanTag v p = v + push_bit 13 (ucast p)"
  unfolding vlanTag_def by (simp add: push_bit_eq_mult)

lemma small_bits:
  assumes "(v :: UA_UInt16) < 4096" and "bit v n"
  shows "n < 12"
proof -
  have "v < 2 ^ 12" using assms(1) by simp
  then have "take_bit 12 v = v" by (simp add: less_mask_eq take_bit_eq_mask)
  then have "bit (take_bit 12 v) n" using assms(2) by simp
  then show ?thesis by (simp add: bit_take_bit_iff)
qed

text \<open>Below 4096 the VLAN id has no bit in common with the shifted priority.\<close>

lemma vlanTag_or:
  assumes "v < 4096"
  shows "vlanTag v p = v OR push_bit 13 (ucast p)"
proof -
  have "\<not> bit v n \<or> \<not> bit (push_bit 13 (ucast p :: UA_UInt16)) n" for n
    using small_bits [OF assms, of n] by (auto simp: bit_push_bit_iff)
  then have "v + push_bit 13 (ucast p) = v OR push_bit 13 (ucast p :: UA_UInt16)"
    by (rule disjunctive_add)
  then show ?thesis by (simp add: vlanTag_plus)
qed

text \<open>With a priority of at most 7 nothing is cut off by the cast to 16 bits.\<close>

lemma vlanTag_uint:
  assumes v: "v < 4096" and p: "p \<le> 7"
  shows "uint (vlanTag v p) = uint v OR push_bit 13 (uint p)"
proof -
  have "\<not> bit (uint v) n \<or> \<not> bit (push_bit 13 (uint p)) n" for n
    using small_bits [OF v, of n] by (auto simp: bit_push_bit_iff bit_uint_iff)
  then have or: "uint v + push_bit 13 (uint p) = uint v OR push_bit 13 (uint p)"
    by (rule disjunctive_add)
  have "uint v < 4096" using v by (simp add: word_less_def)
  moreover have "uint p \<le> 7" using p by (simp add: word_le_def)
  ultimately have "uint v + push_bit 13 (uint p) < 2 ^ 16"
    by (simp add: push_bit_eq_mult)
  moreover have "0 \<le> uint v + push_bit 13 (uint p)" by (simp add: push_bit_eq_mult)
  moreover have "uint (word_of_int x :: UA_UInt16) = x" if "0 \<le> x" and "x < 2 ^ 16" for x
    using that by (simp add: uint_word_of_int take_bit_eq_mod)
  ultimately have "uint (word_of_int (uint v + push_bit 13 (uint p)) :: UA_UInt16)
                     = uint v + push_bit 13 (uint p)"
    by blast
  with or show ?thesis by (simp add: vlanTag_def)
qed

subsection \<open>Send: framing\<close>

text \<open>Send in a valid state, path by path.\<close>

lemma send_no_buffer:
  assumes "state ch = UA_PUBSUB_CHANNEL_PUB \<or> state ch = UA_PUBSUB_CHANNEL_PUB_SUB"
    and "\<not> pbuf_alloc_ok e (of_nat (length buf))"
  shows "UA_PubSubChannelEthernet_send e ch buf =
           (UA_STATUSCODE_BADINTERNALERROR, ch,
            [Pbuf_alloc (of_nat (length buf)), Pbuf_take buf (of_nat (length buf)),
             Printf pbuf_error_text])"
  using assms by (auto simp: UA_PubSubChannelEthernet_send_def pbuf_alloc_def Let_def)

lemma send_untagged:
  assumes "state ch = UA_PUBSUB_CHANNEL_PUB \<or> state ch = UA_PUBSUB_CHANNEL_PUB_SUB"
    and "pbuf_alloc_ok e (of_nat (length buf))" and "vid (handle ch) = 0"
  shows "UA_PubSubChannelEthernet_send e ch buf =
           send_transmit e ch
             \<lparr>vlanhdr = None, payload = take (unat (of_nat (length buf) :: UA_UInt16)) buf,
              type_internal = 0\<rparr>
             ETHERTYPE_UADP
             [Pbuf_alloc (of_nat (length buf)), Pbuf_take buf (of_nat (length buf))]"
  using assms
  by (auto simp: UA_PubSubChannelEthernet_send_def pbuf_alloc_def pbuf_take_def Let_def)

lemma send_no_header:
  assumes "state ch = UA_PUBSUB_CHANNEL_PUB \<or> state ch = UA_PUBSUB_CHANNEL_PUB_SUB"
    and "pbuf_alloc_ok e (of_nat (length buf))" and "vid (handle ch) \<noteq> 0"
    and "pbuf_add_header e
           \<lparr>vlanhdr = None, payload = take (unat (of_nat (length buf) :: UA_UInt16)) buf,
            type_internal = 0\<rparr> 4 \<noteq> 0"
  shows "UA_PubSubChannelEthernet_send e ch buf =
           (UA_STATUSCODE_BADINTERNALERROR, ch,
            [Pbuf_alloc (of_nat (length buf)), Pbuf_take buf (of_nat (length buf)),
             Pbuf_add_header 4, Printf pbuf_error_text])"
  using assms
  by (auto simp: UA_PubSubChannelEthernet_send_def pbuf_alloc_def pbuf_take_def Let_def
      SIZEOF_VLAN_HDR_def)

lemma send_tagged:
  assumes "state ch = UA_PUBSUB_CHANNEL_PUB \<or> state ch = UA_PUBSUB_CHANNEL_PUB_SUB"
    and "pbuf_alloc_ok e (of_nat (length buf))" and "vid (handle ch) \<noteq> 0"
    and "pbuf_add_header e
           \<lparr>vlanhdr = None, payload = take (unat (of_nat (length buf) :: UA_UInt16)) buf,
            type_internal = 0\<rparr> 4 = 0"
  shows "UA_PubSubChannelEthernet_send e ch buf =
           send_transmit e ch
             \<lparr>vlanhdr = Some \<lparr>tpid = htons e ETHERTYPE_UADP,
                              prio_vid = htons e (vlanTag (vid (handle ch)) (prio (handle ch)))\<rparr>,
              payload = take (unat (of_nat (length buf) :: UA_UInt16)) buf,
              type_internal = 0\<rparr>
             ETHERTYPE_VLAN
             [Pbuf_alloc (of_nat (length buf)), Pbuf_take buf (of_nat (length buf)),
              Pbuf_add_header 4]"
  using assms
  by (auto simp: UA_PubSubChannelEthernet_send_def pbuf_alloc_def pbuf_take_def Let_def
      SIZEOF_VLAN_HDR_def)

text \<open>\<open>send_transmit\<close> hands over exactly the frame it was given, once.\<close>

lemma send_transmit_transmitted:
  "transmitted evs = [] \<Longrightarrow>
   transmitted (snd (snd (send_transmit e ch p ty evs))) =
     [Sendraw (netif_get_by_index e (word_of_int (ifindex (handle ch))))
        (p\<lparr>type_internal := 0x80\<rparr>)
        (map_option hwaddr (netif_get_by_index e (word_of_int (ifindex (handle ch)))))
        (targetAddress (handle ch)) ty]"
  by (simp add: send_transmit_def transmitted_def Let_def)

lemma send_transmit_status:
  "(fst (send_transmit e ch p ty evs) = UA_STATUSCODE_GOOD) =
     (0 \<le> UA_sendraw e (netif_get_by_index e (word_of_int (ifindex (handle ch))))
            (p\<lparr>type_internal := 0x80\<rparr>)
            (map_option hwaddr (netif_get_by_index e (word_of_int (ifindex (handle ch)))))
            (targetAddress (handle ch)) ty)"
  by (auto simp: send_transmit_def Let_def)

lemma send_transmit_headers:
  "(Pbuf_add_header n \<in> set (snd (snd (send_transmit e ch p ty evs))))
     = (Pbuf_add_header n \<in> set evs)"
  by (auto simp: send_transmit_def Let_def)

text \<open>
  C1. For every Send call in a valid state (PUBLISHER or PUBLISHER_SUBSCRIBER) with a
  VLAN id below 4096 and a priority of at most 7, what is handed to the transmission
  capability is exactly this. If the VLAN id is 0 and the buffer was allocated: one
  frame, the payload with no VLAN header in front (no header is ever added), with
  EtherType 0xB62C. If the VLAN id is not 0 and the buffer was allocated and the header
  added: one frame, the payload behind a 4-byte header whose tag protocol identifier is
  \<open>htons 0xB62C\<close> and whose tag-control field is \<open>htons (vid | (priority << 13))\<close>, that
  value fitting 16 bits, with EtherType 0x8100. Without a buffer or a header: nothing.
  The frame goes to the channel's target address from the hardware address of the
  interface of the channel's index, and Send returns success exactly when a frame was
  handed over and the capability did not fail.
\<close>

theorem send_vlan_tagging:
  assumes st: "state ch = UA_PUBSUB_CHANNEL_PUB \<or> state ch = UA_PUBSUB_CHANNEL_PUB_SUB"
    and v: "vid (handle ch) < 4096" and p: "prio (handle ch) \<le> 7"
  shows "transmitted (snd (snd (UA_PubSubChannelEthernet_send e ch buf))) =
           (if \<not> pbuf_alloc_ok e (of_nat (length buf)) then []
            else if vid (handle ch) = 0 then
              [Sendraw (netif_get_by_index e (word_of_int (ifindex (handle ch))))
                 \<lparr>vlanhdr = None,
                  payload = take (unat (of_nat (length buf) :: UA_UInt16)) buf,
                  type_internal = 0x80\<rparr>
                 (map_option hwaddr (netif_get_by_index e (word_of_int (ifindex (handle ch)))))
                 (targetAddress (handle ch)) 0xb62c]
            else if pbuf_add_header e
                      \<lparr>vlanhdr = None,
                       payload = take (unat (of_nat (length buf) :: UA_UInt16)) buf,
                       type_internal = 0\<rparr> 4 \<noteq> 0 then []
            else
              [Sendraw (netif_get_by_index e (word_of_int (ifindex (handle ch))))
                 \<lparr>vlanhdr =
                    Some \<lparr>tpid = htons e 0xb62c,
                          prio_vid = htons e (vid (handle ch) OR
                                              push_bit 13 (ucast (prio (handle ch))))\<rparr>,
                  payload = take (unat (of_nat (length buf) :: UA_UInt16)) buf,
                  type_internal = 0x80\<rparr>
                 (map_option hwaddr (netif_get_by_index e (word_of_int (ifindex (handle ch)))))
                 (targetAddress (handle ch)) 0x8100])
         \<and> (\<forall>n. (Pbuf_add_header n
                   \<in> set (snd (snd (UA_PubSubChannelEthernet_send e ch buf))))
                = (n = 4 \<and> vid (handle ch) \<noteq> 0 \<and> pbuf_alloc_ok e (of_nat (length buf))))
         \<and> uint (vid (handle ch) OR push_bit 13 (ucast (prio (handle ch))) :: UA_UInt16)
             = uint (vid (handle ch)) OR push_bit 13 (uint (prio (handle ch)))
         \<and> (fst (UA_PubSubChannelEthernet_send e ch buf) = UA_STATUSCODE_GOOD)
             = (\<exists>nif q src dst ty.
                  transmitted (snd (snd (UA_PubSubChannelEthernet_send e ch buf)))
                    = [Sendraw nif q src dst ty]
                  \<and> 0 \<le> UA_sendraw e nif q src dst ty)"
proof -
  let ?len = "of_nat (length buf) :: UA_UInt16"
  let ?p0 = "\<lparr>vlanhdr = None, payload = take (unat ?len) buf, type_internal = 0\<rparr>"
  let ?send = "UA_PubSubChannelEthernet_send e ch buf"
  have tag: "vlanTag (vid (handle ch)) (prio (handle ch))
               = vid (handle ch) OR push_bit 13 (ucast (prio (handle ch)))"
    using v by (rule vlanTag_or)
  have fit: "uint (vid (handle ch) OR push_bit 13 (ucast (prio (handle ch))) :: UA_UInt16)
               = uint (vid (handle ch)) OR push_bit 13 (uint (prio (handle ch)))"
    using vlanTag_uint [OF v p] tag by simp
  have none: "transmitted [Pbuf_alloc ?len, Pbuf_take buf ?len] = []"
    "transmitted [Pbuf_alloc ?len, Pbuf_take buf ?len, Pbuf_add_header 4] = []"
    "transmitted [Pbuf_alloc ?len, Pbuf_take buf ?len, Printf pbuf_error_text] = []"
    "transmitted [Pbuf_alloc ?len, Pbuf_take buf ?len, Pbuf_add_header 4,
                  Printf pbuf_error_text] = []"
    by (simp_all add: transmitted_def)
  consider (nobuf) "\<not> pbuf_alloc_ok e ?len"
    | (plain) "pbuf_alloc_ok e ?len" "vid (handle ch) = 0"
    | (nohdr) "pbuf_alloc_ok e ?len" "vid (handle ch) \<noteq> 0" "pbuf_add_header e ?p0 4 \<noteq> 0"
    | (tagged) "pbuf_alloc_ok e ?len" "vid (handle ch) \<noteq> 0" "pbuf_add_header e ?p0 4 = 0"
    by blast
  then show ?thesis
  proof cases
    case nobuf
    note eq = send_no_buffer [OF st nobuf]
    show ?thesis using nobuf fit by (simp add: eq none)
  next
    case plain
    note eq = send_untagged [OF st plain]
    show ?thesis
      using plain fit
      by (simp add: eq send_transmit_transmitted [OF none(1)] send_transmit_status
          send_transmit_headers ETHERTYPE_UADP_def)
  next
    case nohdr
    note eq = send_no_header [OF st nohdr]
    show ?thesis using nohdr fit by (auto simp add: eq none)
  next
    case tagged
    note eq = send_tagged [OF st tagged]
    show ?thesis
      using tagged fit
      by (auto simp add: eq send_transmit_transmitted [OF none(2)] send_transmit_status
          send_transmit_headers ETHERTYPE_UADP_def ETHERTYPE_VLAN_def tag)
  qed
qed

theorem send_vlan_tagging_witness:
  "transmitted (snd (snd (UA_PubSubChannelEthernet_send example_env example_channel [1, 2, 3])))
     = [Sendraw (Some \<lparr>hwaddr = [0x00, 0x0a, 0x35, 0x00, 0x01, 0x02]\<rparr>)
          \<lparr>vlanhdr = Some \<lparr>tpid = 0x2cb6, prio_vid = 0x64a0\<rparr>, payload = [1, 2, 3],
           type_internal = 0x80\<rparr>
          (Some [0x00, 0x0a, 0x35, 0x00, 0x01, 0x02]) [0x01, 0x00, 0x5e, 0x00, 0x00, 0x01] 0x8100]
   \<and> transmitted (snd (snd (UA_PubSubChannelEthernet_send example_env
        (example_channel\<lparr>handle := (handle example_channel)\<lparr>vid := 0\<rparr>\<rparr>) [1, 2, 3])))
     = [Sendraw (Some \<lparr>hwaddr = [0x00, 0x0a, 0x35, 0x00, 0x01, 0x02]\<rparr>)
          \<lparr>vlanhdr = None, payload = [1, 2, 3], type_internal = 0x80\<rparr>
          (Some [0x00, 0x0a, 0x35, 0x00, 0x01, 0x02]) [0x01, 0x00, 0x5e, 0x00, 0x00, 0x01] 0xb62c]
   \<and> fst (UA_PubSubChannelEthernet_send example_env example_channel [1, 2, 3])
       = UA_STATUSCODE_GOOD"
proof -
  let ?plain = "example_channel\<lparr>handle := (handle example_channel)\<lparr>vid := 0\<rparr>\<rparr>"
  have a: "state example_channel = UA_PUBSUB_CHANNEL_PUB
            \<or> state example_channel = UA_PUBSUB_CHANNEL_PUB_SUB"
    "vid (handle example_channel) < 4096" "prio (handle example_channel) \<le> 7"
    by (simp_all add: example_channel_def)
  have b: "state ?plain = UA_PUBSUB_CHANNEL_PUB \<or> state ?plain = UA_PUBSUB_CHANNEL_PUB_SUB"
    "vid (handle ?plain) < 4096" "prio (handle ?plain) \<le> 7"
    by (simp_all add: example_channel_def)
  note t = send_vlan_tagging [OF a, of example_env "[1, 2, 3]"]
  note u = send_vlan_tagging [OF b, of example_env "[1, 2, 3]"]
  have t1: "transmitted (snd (snd (UA_PubSubChannelEthernet_send example_env example_channel
              [1, 2, 3])))
     = [Sendraw (Some \<lparr>hwaddr = [0x00, 0x0a, 0x35, 0x00, 0x01, 0x02]\<rparr>)
          \<lparr>vlanhdr = Some \<lparr>tpid = 0x2cb6, prio_vid = 0x64a0\<rparr>, payload = [1, 2, 3],
           type_internal = 0x80\<rparr>
          (Some [0x00, 0x0a, 0x35, 0x00, 0x01, 0x02]) [0x01, 0x00, 0x5e, 0x00, 0x00, 0x01] 0x8100]"
    using t by (simp add: example_env_def example_channel_def)
  have u1: "transmitted (snd (snd (UA_PubSubChannelEthernet_send example_env ?plain [1, 2, 3])))
     = [Sendraw (Some \<lparr>hwaddr = [0x00, 0x0a, 0x35, 0x00, 0x01, 0x02]\<rparr>)
          \<lparr>vlanhdr = None, payload = [1, 2, 3], type_internal = 0x80\<rparr>
          (Some [0x00, 0x0a, 0x35, 0x00, 0x01, 0x02]) [0x01, 0x00, 0x5e, 0x00, 0x00, 0x01] 0xb62c]"
    using u by (simp add: example_env_def example_channel_def)
  have t2: "fst (UA_PubSubChannelEthernet_send example_env example_channel [1, 2, 3])
              = UA_STATUSCODE_GOOD"
    using t t1 by (simp add: example_env_def)
  from t1 u1 t2 show ?thesis by simp
qed

subsection \<open>Send: the frame buffer\<close>

text \<open>
  C3. Send is to release the frame buffer it allocated on every exit path after the
  allocation. Run with VLAN id 100 on an environment where \<^verbatim>\<open>pbuf_alloc\<close> succeeds and
  \<^verbatim>\<open>pbuf_add_header\<close> fails, the code returns the error without calling
  \<^verbatim>\<open>pbuf_free\<close>, although the paths after \<^verbatim>\<open>UA_sendraw\<close> do call it.
\<close>

theorem send_header_failure_keeps_buffer:
  "UA_PubSubChannelEthernet_send (example_env\<lparr>pbuf_add_header := (\<lambda>p n. 1)\<rparr>)
       example_channel [1, 2, 3] =
     (UA_STATUSCODE_BADINTERNALERROR, example_channel,
      [Pbuf_alloc 3, Pbuf_take [1, 2, 3] 3, Pbuf_add_header 4, Printf pbuf_error_text])
   \<and> Pbuf_free \<notin> set (snd (snd (UA_PubSubChannelEthernet_send
          (example_env\<lparr>pbuf_add_header := (\<lambda>p n. 1)\<rparr>) example_channel [1, 2, 3])))"
  by (simp add: UA_PubSubChannelEthernet_send_def send_transmit_def example_env_def
      example_channel_def pbuf_alloc_def pbuf_take_def SIZEOF_VLAN_HDR_def Let_def)

subsection \<open>State preconditions\<close>

lemma send_transmit_bad:
  "(fst (send_transmit e ch p ty evs) = UA_STATUSCODE_BADINTERNALERROR) =
     (UA_sendraw e (netif_get_by_index e (word_of_int (ifindex (handle ch))))
        (p\<lparr>type_internal := 0x80\<rparr>)
        (map_option hwaddr (netif_get_by_index e (word_of_int (ifindex (handle ch)))))
        (targetAddress (handle ch)) ty < 0)"
  by (auto simp: send_transmit_def Let_def)

lemma send_transmit_first:
  "evs \<noteq> [] \<Longrightarrow> hd (snd (snd (send_transmit e ch p ty evs))) = hd evs"
  by (auto simp: send_transmit_def Let_def)

lemma send_transmit_channel: "fst (snd (send_transmit e ch p ty evs)) = ch"
  by (auto simp: send_transmit_def Let_def)

lemma send_invalid_state:
  "(UA_PubSubChannelEthernet_send e ch buf =
      (UA_STATUSCODE_BADINTERNALERROR, ch,
       [UA_LOG UA_LOGLEVEL_WARNING ''PubSub Connection sending failed. Invalid state.'' []]))
     = (state ch \<notin> {UA_PUBSUB_CHANNEL_PUB, UA_PUBSUB_CHANNEL_PUB_SUB})"
  by (auto simp: UA_PubSubChannelEthernet_send_def send_transmit_def Let_def
      split: option.splits)

text \<open>
  C4, amended. Each operation returns the error status, having made no call but the log
  line of its state check and with the channel untouched, whenever its state
  precondition fails: Register needs PUBLISHER or READY, Unregister needs
  PUBLISHER_SUBSCRIBER or SUBSCRIBER, Send and Receive need PUBLISHER or
  PUBLISHER_SUBSCRIBER. Register, Unregister and Receive return the error status exactly
  then. Send produces that outcome exactly then, but returns the same error status also
  in a valid state, where it first calls \<^verbatim>\<open>pbuf_alloc\<close>, leaves the channel untouched and
  fails exactly when \<^verbatim>\<open>pbuf_alloc\<close>, \<^verbatim>\<open>pbuf_add_header\<close> (with a VLAN id other than 0) or
  \<^verbatim>\<open>UA_sendraw\<close> fails.
\<close>

theorem state_check_errors:
  "(UA_PubSubChannelEthernet_regist ch =
      (UA_STATUSCODE_BADINTERNALERROR, ch,
       [UA_LOG UA_LOGLEVEL_ERROR ''PubSub Connection regist failed.'' []]))
     = (state ch \<notin> {UA_PUBSUB_CHANNEL_PUB, UA_PUBSUB_CHANNEL_RDY})
   \<and> (fst (UA_PubSubChannelEthernet_regist ch) = UA_STATUSCODE_BADINTERNALERROR)
     = (state ch \<notin> {UA_PUBSUB_CHANNEL_PUB, UA_PUBSUB_CHANNEL_RDY})
   \<and> (UA_PubSubChannelEthernet_unregist ch =
      (UA_STATUSCODE_BADINTERNALERROR, ch,
       [UA_LOG UA_LOGLEVEL_ERROR ''PubSub Connection unregist failed.'' []]))
     = (state ch \<notin> {UA_PUBSUB_CHANNEL_PUB_SUB, UA_PUBSUB_CHANNEL_SUB})
   \<and> (fst (UA_PubSubChannelEthernet_unregist ch) = UA_STATUSCODE_BADINTERNALERROR)
     = (state ch \<notin> {UA_PUBSUB_CHANNEL_PUB_SUB, UA_PUBSUB_CHANNEL_SUB})
   \<and> (UA_PubSubChannelEthernet_receive ch timeout =
      (UA_STATUSCODE_BADINTERNALERROR, ch,
       [UA_LOG UA_LOGLEVEL_ERROR ''PubSub Connection receive failed. Invalid state.'' []]))
     = (state ch \<notin> {UA_PUBSUB_CHANNEL_PUB, UA_PUBSUB_CHANNEL_PUB_SUB})
   \<and> (fst (UA_PubSubChannelEthernet_receive ch timeout) = UA_STATUSCODE_BADINTERNALERROR)
     = (state ch \<notin> {UA_PUBSUB_CHANNEL_PUB, UA_PUBSUB_CHANNEL_PUB_SUB})
   \<and> (UA_PubSubChannelEthernet_send e ch buf =
      (UA_STATUSCODE_BADINTERNALERROR, ch,
       [UA_LOG UA_LOGLEVEL_WARNING ''PubSub Connection sending failed. Invalid state.'' []]))
     = (state ch \<notin> {UA_PUBSUB_CHANNEL_PUB, UA_PUBSUB_CHANNEL_PUB_SUB})
   \<and> (state ch \<notin> {UA_PUBSUB_CHANNEL_PUB, UA_PUBSUB_CHANNEL_PUB_SUB} \<longrightarrow>
        fst (UA_PubSubChannelEthernet_send e ch buf) = UA_STATUSCODE_BADINTERNALERROR)
   \<and> (state ch \<in> {UA_PUBSUB_CHANNEL_PUB, UA_PUBSUB_CHANNEL_PUB_SUB} \<longrightarrow>
        hd (snd (snd (UA_PubSubChannelEthernet_send e ch buf))) = Pbuf_alloc (of_nat (length buf))
        \<and> fst (snd (UA_PubSubChannelEthernet_send e ch buf)) = ch
        \<and> (fst (UA_PubSubChannelEthernet_send e ch buf) = UA_STATUSCODE_BADINTERNALERROR)
            = (\<not> pbuf_alloc_ok e (of_nat (length buf)) \<or>
               (if vid (handle ch) = 0 then
                  UA_sendraw e (netif_get_by_index e (word_of_int (ifindex (handle ch))))
                    \<lparr>vlanhdr = None,
                     payload = take (unat (of_nat (length buf) :: UA_UInt16)) buf,
                     type_internal = 0x80\<rparr>
                    (map_option hwaddr (netif_get_by_index e (word_of_int (ifindex (handle ch)))))
                    (targetAddress (handle ch)) 0xb62c < 0
                else
                  pbuf_add_header e
                    \<lparr>vlanhdr = None,
                     payload = take (unat (of_nat (length buf) :: UA_UInt16)) buf,
                     type_internal = 0\<rparr> 4 \<noteq> 0 \<or>
                  UA_sendraw e (netif_get_by_index e (word_of_int (ifindex (handle ch))))
                    \<lparr>vlanhdr =
                       Some \<lparr>tpid = htons e 0xb62c,
                             prio_vid = htons e (vlanTag (vid (handle ch)) (prio (handle ch)))\<rparr>,
                     payload = take (unat (of_nat (length buf) :: UA_UInt16)) buf,
                     type_internal = 0x80\<rparr>
                    (map_option hwaddr (netif_get_by_index e (word_of_int (ifindex (handle ch)))))
                    (targetAddress (handle ch)) 0x8100 < 0)))"
proof -
  have r: "(UA_PubSubChannelEthernet_regist ch =
      (UA_STATUSCODE_BADINTERNALERROR, ch,
       [UA_LOG UA_LOGLEVEL_ERROR ''PubSub Connection regist failed.'' []]))
     = (state ch \<notin> {UA_PUBSUB_CHANNEL_PUB, UA_PUBSUB_CHANNEL_RDY})"
    "(fst (UA_PubSubChannelEthernet_regist ch) = UA_STATUSCODE_BADINTERNALERROR)
     = (state ch \<notin> {UA_PUBSUB_CHANNEL_PUB, UA_PUBSUB_CHANNEL_RDY})"
    by (auto simp: UA_PubSubChannelEthernet_regist_def)
  have u: "(UA_PubSubChannelEthernet_unregist ch =
      (UA_STATUSCODE_BADINTERNALERROR, ch,
       [UA_LOG UA_LOGLEVEL_ERROR ''PubSub Connection unregist failed.'' []]))
     = (state ch \<notin> {UA_PUBSUB_CHANNEL_PUB_SUB, UA_PUBSUB_CHANNEL_SUB})"
    "(fst (UA_PubSubChannelEthernet_unregist ch) = UA_STATUSCODE_BADINTERNALERROR)
     = (state ch \<notin> {UA_PUBSUB_CHANNEL_PUB_SUB, UA_PUBSUB_CHANNEL_SUB})"
    by (auto simp: UA_PubSubChannelEthernet_unregist_def)
  have v: "(UA_PubSubChannelEthernet_receive ch timeout =
      (UA_STATUSCODE_BADINTERNALERROR, ch,
       [UA_LOG UA_LOGLEVEL_ERROR ''PubSub Connection receive failed. Invalid state.'' []]))
     = (state ch \<notin> {UA_PUBSUB_CHANNEL_PUB, UA_PUBSUB_CHANNEL_PUB_SUB})"
    "(fst (UA_PubSubChannelEthernet_receive ch timeout) = UA_STATUSCODE_BADINTERNALERROR)
     = (state ch \<notin> {UA_PUBSUB_CHANNEL_PUB, UA_PUBSUB_CHANNEL_PUB_SUB})"
    by (auto simp: UA_PubSubChannelEthernet_receive_def)
  note s = send_invalid_state [of e ch buf]
  have s2: "fst (UA_PubSubChannelEthernet_send e ch buf) = UA_STATUSCODE_BADINTERNALERROR"
    if "state ch \<notin> {UA_PUBSUB_CHANNEL_PUB, UA_PUBSUB_CHANNEL_PUB_SUB}"
    using that s by (metis fst_conv)
  let ?len = "of_nat (length buf) :: UA_UInt16"
  let ?p0 = "\<lparr>vlanhdr = None, payload = take (unat ?len) buf, type_internal = 0\<rparr>"
  let ?nif = "netif_get_by_index e (word_of_int (ifindex (handle ch)))"
  let ?fail = "\<not> pbuf_alloc_ok e ?len \<or>
       (if vid (handle ch) = 0 then
          UA_sendraw e ?nif
            \<lparr>vlanhdr = None, payload = take (unat ?len) buf, type_internal = 0x80\<rparr>
            (map_option hwaddr ?nif) (targetAddress (handle ch)) 0xb62c < 0
        else
          pbuf_add_header e ?p0 4 \<noteq> 0 \<or>
          UA_sendraw e ?nif
            \<lparr>vlanhdr = Some \<lparr>tpid = htons e 0xb62c,
                             prio_vid = htons e (vlanTag (vid (handle ch)) (prio (handle ch)))\<rparr>,
             payload = take (unat ?len) buf, type_internal = 0x80\<rparr>
            (map_option hwaddr ?nif) (targetAddress (handle ch)) 0x8100 < 0)"
  have s3: "hd (snd (snd (UA_PubSubChannelEthernet_send e ch buf))) = Pbuf_alloc ?len
        \<and> fst (snd (UA_PubSubChannelEthernet_send e ch buf)) = ch
        \<and> (fst (UA_PubSubChannelEthernet_send e ch buf) = UA_STATUSCODE_BADINTERNALERROR)
            = ?fail"
    if "state ch \<in> {UA_PUBSUB_CHANNEL_PUB, UA_PUBSUB_CHANNEL_PUB_SUB}"
  proof -
    from that have st: "state ch = UA_PUBSUB_CHANNEL_PUB \<or> state ch = UA_PUBSUB_CHANNEL_PUB_SUB"
      by simp
    consider (nobuf) "\<not> pbuf_alloc_ok e ?len"
      | (plain) "pbuf_alloc_ok e ?len" "vid (handle ch) = 0"
      | (nohdr) "pbuf_alloc_ok e ?len" "vid (handle ch) \<noteq> 0" "pbuf_add_header e ?p0 4 \<noteq> 0"
      | (tagged) "pbuf_alloc_ok e ?len" "vid (handle ch) \<noteq> 0" "pbuf_add_header e ?p0 4 = 0"
      by blast
    then show ?thesis
    proof cases
      case nobuf
      show ?thesis using nobuf by (simp add: send_no_buffer [OF st nobuf])
    next
      case plain
      show ?thesis
        using plain
        by (simp add: send_untagged [OF st plain] send_transmit_bad send_transmit_first
            send_transmit_channel ETHERTYPE_UADP_def)
    next
      case nohdr
      show ?thesis using nohdr by (simp add: send_no_header [OF st nohdr])
    next
      case tagged
      show ?thesis
        using tagged
        by (simp add: send_tagged [OF st tagged] send_transmit_bad send_transmit_first
            send_transmit_channel ETHERTYPE_UADP_def ETHERTYPE_VLAN_def)
    qed
  qed
  from r u v s s2 s3 show ?thesis by blast
qed

theorem state_check_errors_witness:
  "fst (UA_PubSubChannelEthernet_regist (example_channel\<lparr>state := UA_PUBSUB_CHANNEL_SUB\<rparr>))
     = UA_STATUSCODE_BADINTERNALERROR
   \<and> fst (UA_PubSubChannelEthernet_unregist (example_channel\<lparr>state := UA_PUBSUB_CHANNEL_SUB\<rparr>))
     \<noteq> UA_STATUSCODE_BADINTERNALERROR
   \<and> UA_PubSubChannelEthernet_send example_env
        (example_channel\<lparr>state := UA_PUBSUB_CHANNEL_SUB\<rparr>) [1, 2, 3] =
      (UA_STATUSCODE_BADINTERNALERROR, example_channel\<lparr>state := UA_PUBSUB_CHANNEL_SUB\<rparr>,
       [UA_LOG UA_LOGLEVEL_WARNING ''PubSub Connection sending failed. Invalid state.'' []])
   \<and> state example_channel = UA_PUBSUB_CHANNEL_PUB
   \<and> hd (snd (snd (UA_PubSubChannelEthernet_send example_env example_channel [1, 2, 3])))
       = Pbuf_alloc 3
   \<and> fst (UA_PubSubChannelEthernet_send example_env example_channel [1, 2, 3])
       \<noteq> UA_STATUSCODE_BADINTERNALERROR
   \<and> fst (UA_PubSubChannelEthernet_send (example_env\<lparr>pbuf_alloc_ok := (\<lambda>len. False)\<rparr>)
        example_channel [1, 2, 3]) = UA_STATUSCODE_BADINTERNALERROR"
proof -
  note a = state_check_errors [of "example_channel\<lparr>state := UA_PUBSUB_CHANNEL_SUB\<rparr>" 0
      example_env "[1, 2, 3]"]
  note b = state_check_errors [of example_channel 0 example_env "[1, 2, 3]"]
  note c = state_check_errors [of example_channel 0
      "example_env\<lparr>pbuf_alloc_ok := (\<lambda>len. False)\<rparr>" "[1, 2, 3]"]
  have st: "state example_channel = UA_PUBSUB_CHANNEL_PUB" by (simp add: example_channel_def)
  have a1: "fst (UA_PubSubChannelEthernet_regist
                   (example_channel\<lparr>state := UA_PUBSUB_CHANNEL_SUB\<rparr>))
              = UA_STATUSCODE_BADINTERNALERROR"
    and a2: "fst (UA_PubSubChannelEthernet_unregist
                    (example_channel\<lparr>state := UA_PUBSUB_CHANNEL_SUB\<rparr>))
              \<noteq> UA_STATUSCODE_BADINTERNALERROR"
    and a3: "UA_PubSubChannelEthernet_send example_env
        (example_channel\<lparr>state := UA_PUBSUB_CHANNEL_SUB\<rparr>) [1, 2, 3] =
      (UA_STATUSCODE_BADINTERNALERROR, example_channel\<lparr>state := UA_PUBSUB_CHANNEL_SUB\<rparr>,
       [UA_LOG UA_LOGLEVEL_WARNING ''PubSub Connection sending failed. Invalid state.'' []])"
    using a by simp_all
  have b1: "hd (snd (snd (UA_PubSubChannelEthernet_send example_env example_channel [1, 2, 3])))
              = Pbuf_alloc 3"
    using b st by simp
  have b2: "fst (UA_PubSubChannelEthernet_send example_env example_channel [1, 2, 3])
              \<noteq> UA_STATUSCODE_BADINTERNALERROR"
    using b st by (simp add: example_env_def example_channel_def)
  have c1: "fst (UA_PubSubChannelEthernet_send (example_env\<lparr>pbuf_alloc_ok := (\<lambda>len. False)\<rparr>)
        example_channel [1, 2, 3]) = UA_STATUSCODE_BADINTERNALERROR"
    using c st by simp
  from a1 a2 a3 st b1 b2 c1 show ?thesis by blast
qed

text \<open>
  The claim as stated fails for Send on a channel in state PUBLISHER when the
  transmission fails: the state precondition holds, and Send returns the error status,
  with the channel untouched.
\<close>

theorem send_error_in_valid_state_counterexample:
  "state example_channel = UA_PUBSUB_CHANNEL_PUB
   \<and> fst (UA_PubSubChannelEthernet_send
            (example_env\<lparr>UA_sendraw := (\<lambda>nif p src dst ty. - 1)\<rparr>) example_channel [1, 2, 3])
       = UA_STATUSCODE_BADINTERNALERROR
   \<and> fst (snd (UA_PubSubChannelEthernet_send
            (example_env\<lparr>UA_sendraw := (\<lambda>nif p src dst ty. - 1)\<rparr>) example_channel [1, 2, 3]))
       = example_channel"
  by (simp add: UA_PubSubChannelEthernet_send_def send_transmit_def example_env_def
      example_channel_def pbuf_alloc_def pbuf_take_def vlanTag_def ETHERTYPE_UADP_def
      ETHERTYPE_VLAN_def SIZEOF_VLAN_HDR_def Let_def)

subsection \<open>Register\<close>

text \<open>
  C9, amended. Register called in a valid state (PUBLISHER or READY) returns success
  without invoking any group-membership operation, or any other call, whether or not the
  target address is multicast-eligible.
\<close>

theorem regist_valid_state:
  "state ch = UA_PUBSUB_CHANNEL_PUB \<or> state ch = UA_PUBSUB_CHANNEL_RDY \<Longrightarrow>
   UA_PubSubChannelEthernet_regist ch = (UA_STATUSCODE_GOOD, ch, [])"
  by (auto simp: UA_PubSubChannelEthernet_regist_def)

theorem regist_valid_state_witness:
  "state (example_channel\<lparr>state := UA_PUBSUB_CHANNEL_RDY\<rparr>) = UA_PUBSUB_CHANNEL_RDY
   \<and> UA_PubSubChannelEthernet_regist (example_channel\<lparr>state := UA_PUBSUB_CHANNEL_RDY\<rparr>)
       = (UA_STATUSCODE_GOOD, example_channel\<lparr>state := UA_PUBSUB_CHANNEL_RDY\<rparr>, [])"
  using regist_valid_state [of "example_channel\<lparr>state := UA_PUBSUB_CHANNEL_RDY\<rparr>"]
  by simp

text \<open>
  The claim as stated fails on a channel in state PUBLISHER whose target
  01-00-5E-00-00-01 is multicast-eligible: Register returns success and has called
  nothing, so no group was joined.
\<close>

theorem regist_multicast_counterexample:
  "is_multicast_address (targetAddress (handle example_channel))
   \<and> state example_channel = UA_PUBSUB_CHANNEL_PUB
   \<and> UA_PubSubChannelEthernet_regist example_channel = (UA_STATUSCODE_GOOD, example_channel, [])"
  by (simp add: example_channel_def UA_PubSubChannelEthernet_regist_def is_multicast_example)

subsection \<open>Open\<close>

lemma open_None_iff:
  "(fst (UA_PubSubChannelEthernet_open e cfg h) = None) = open_fails e cfg h"
  by (auto simp: UA_PubSubChannelEthernet_open_def open_fails_def UA_calloc_def Let_def
      split: prod.splits option.splits UA_Variant.splits if_splits)

lemma open_None_heap:
  "UA_PubSubChannelEthernet_open e cfg h = (None, h2, evs) \<Longrightarrow>
   live h2 = live h \<and> capacity h2 = capacity h"
  by (auto simp: UA_PubSubChannelEthernet_open_def UA_calloc_def UA_free_def Let_def
      split: prod.splits option.splits UA_Variant.splits if_splits)

lemma open_state:
  "UA_PubSubChannelEthernet_open e cfg h = (Some ch, h2, evs) \<Longrightarrow>
   state ch = UA_PUBSUB_CHANNEL_PUB"
  by (auto simp: UA_PubSubChannelEthernet_open_def Let_def
      split: prod.splits option.splits UA_Variant.splits if_splits)

lemma open_example_other:
  "UA_PubSubChannelEthernet_open example_env \<lparr>address = Variant_Other\<rparr> example_heap =
     (None, \<lparr>live = [], capacity = 4, fresh = 1\<rparr>,
      [UA_LOG UA_LOGLEVEL_INFO ''Open PubSub ethernet connection.'' [],
       UA_LOG UA_LOGLEVEL_ERROR ''PubSub Connection creation failed. Invalid Address.'' []])"
  by (simp add: UA_PubSubChannelEthernet_open_def example_heap_def UA_calloc_def UA_free_def
      Let_def)

text \<open>
  C7. Open returns \<^verbatim>\<open>NULL\<close> exactly when one of the reasons for failure holds (an
  address of the wrong type, a URL the parser rejects, a malformed target hardware
  address, or a failed allocation); it has then released every block it allocated, the
  heap holding the blocks and the room it held before; and a channel that Open returns is
  in state PUBLISHER.
\<close>

theorem open_failure_unwinds:
  "UA_PubSubChannelEthernet_open e cfg h = (r, h2, evs) \<Longrightarrow>
   (r = None) = open_fails e cfg h
   \<and> (r = None \<longrightarrow> live h2 = live h \<and> capacity h2 = capacity h)
   \<and> (\<forall>ch. r = Some ch \<longrightarrow> state ch = UA_PUBSUB_CHANNEL_PUB)"
  using open_None_iff [of e cfg h] open_None_heap [of e cfg h h2 evs]
    open_state [of e cfg h _ h2 evs]
  by auto

theorem open_failure_unwinds_witness:
  "fst (UA_PubSubChannelEthernet_open example_env \<lparr>address = Variant_Other\<rparr> example_heap) = None
   \<and> open_fails example_env \<lparr>address = Variant_Other\<rparr> example_heap
   \<and> live (fst (snd (UA_PubSubChannelEthernet_open example_env \<lparr>address = Variant_Other\<rparr>
        example_heap))) = live example_heap
   \<and> fst (UA_PubSubChannelEthernet_open example_env example_config example_heap)
       = Some example_channel
   \<and> \<not> open_fails example_env example_config example_heap
   \<and> state example_channel = UA_PUBSUB_CHANNEL_PUB"
  using open_failure_unwinds [OF open_example_other] open_failure_unwinds [OF open_example]
  by (simp add: open_example_other open_example)

lemma open_ifindex:
  "UA_PubSubChannelEthernet_open e cfg h = (Some ch, h2, evs) \<Longrightarrow>
   ifindex (handle ch) = char_to_int e (netif_name_to_index e ''xe'')
   \<and> Netif_name_to_index ''xe'' \<in> set evs
   \<and> (\<forall>n. Netif_name_to_index n \<in> set evs \<longrightarrow> n = ''xe'')"
  by (auto simp: UA_PubSubChannelEthernet_open_def UA_calloc_def UA_free_def Let_def
      split: prod.splits option.splits UA_Variant.splits if_splits)

lemma open_fails_resolver:
  "open_fails (e\<lparr>netif_name_to_index := f\<rparr>) cfg h = open_fails e cfg h"
  by (auto simp: open_fails_def split: UA_Variant.splits prod.splits)

text \<open>
  C8, amended. Open looks up the fixed interface name \<^verbatim>\<open>xe\<close>, not the configured one, and
  stores the index it gets in the channel; it never fails on account of the lookup:
  whether Open returns \<^verbatim>\<open>NULL\<close> does not depend on what the resolver answers.
\<close>

theorem open_interface_lookup:
  "(fst (UA_PubSubChannelEthernet_open (e\<lparr>netif_name_to_index := f\<rparr>) cfg h) = None)
     = (fst (UA_PubSubChannelEthernet_open e cfg h) = None)
   \<and> (\<forall>ch h2 evs. UA_PubSubChannelEthernet_open e cfg h = (Some ch, h2, evs) \<longrightarrow>
         ifindex (handle ch) = char_to_int e (netif_name_to_index e ''xe'')
         \<and> Netif_name_to_index ''xe'' \<in> set evs
         \<and> (\<forall>n. Netif_name_to_index n \<in> set evs \<longrightarrow> n = ''xe''))"
  using open_ifindex [of e cfg h] by (simp add: open_None_iff open_fails_resolver)

theorem open_interface_lookup_witness:
  "fst (UA_PubSubChannelEthernet_open example_env example_config example_heap) \<noteq> None
   \<and> fst (UA_PubSubChannelEthernet_open (example_env\<lparr>netif_name_to_index := (\<lambda>name. 0)\<rparr>)
        example_config example_heap) \<noteq> None
   \<and> ifindex (handle example_channel)
       = char_to_int example_env (netif_name_to_index example_env ''xe'')"
  using open_interface_lookup [where e = example_env and f = "\<lambda>name. 0"
      and cfg = example_config and h = example_heap]
  by (simp add: open_example)

text \<open>
  The claim as stated fails in an environment where no interface name resolves (the
  resolver answers 0 for the configured \<^verbatim>\<open>eth0\<close> and for \<^verbatim>\<open>xe\<close>): Open still returns a
  channel, with interface index 0.
\<close>

theorem open_unresolved_interface_counterexample:
  "netif_name_to_index (example_env\<lparr>netif_name_to_index := (\<lambda>name. 0)\<rparr>) ''eth0'' = 0
   \<and> netif_name_to_index (example_env\<lparr>netif_name_to_index := (\<lambda>name. 0)\<rparr>) ''xe'' = 0
   \<and> fst (UA_PubSubChannelEthernet_open (example_env\<lparr>netif_name_to_index := (\<lambda>name. 0)\<rparr>)
        example_config example_heap)
       = Some (example_channel\<lparr>handle := (handle example_channel)\<lparr>ifindex := 0\<rparr>\<rparr>)"
  by (simp add: UA_PubSubChannelEthernet_open_def example_env_def example_config_def
      example_heap_def example_channel_def UA_calloc_def parse_example char_to_int_def
      replicate_ETH_ALEN Let_def)

subsection \<open>The state of an open channel\<close>

lemma step_channel: "step e ch c = (out, ch2, evs) \<Longrightarrow> ch2 = ch"
  by (cases c)
    (auto simp: UA_PubSubChannelEthernet_regist_def UA_PubSubChannelEthernet_unregist_def
      UA_PubSubChannelEthernet_receive_def UA_PubSubChannelEthernet_send_def send_transmit_def
      Let_def split: if_splits option.splits)

lemma run_channel: "fst (run ch cs) = ch"
proof (induction cs arbitrary: ch)
  case Nil
  show ?case by simp
next
  case (Cons x cs)
  obtain e c where x: "x = (e, c)" by (cases x)
  obtain out ch2 evs where st: "step e ch c = (out, ch2, evs)" by (cases "step e ch c")
  have ch2: "ch2 = ch" using st by (rule step_channel)
  obtain ch3 outs where r: "run ch cs = (ch3, outs)" by (cases "run ch cs")
  with Cons.IH [of ch] have "ch3 = ch" by simp
  with x st ch2 r show ?case by simp
qed

lemma unregist_in_PUB:
  "state ch = UA_PUBSUB_CHANNEL_PUB \<Longrightarrow>
   UA_PubSubChannelEthernet_unregist ch =
     (UA_STATUSCODE_BADINTERNALERROR, ch,
      [UA_LOG UA_LOGLEVEL_ERROR ''PubSub Connection unregist failed.'' []])"
  by (simp add: UA_PubSubChannelEthernet_unregist_def)

text \<open>
  C10. A channel returned by Open is in state PUBLISHER, and no run of Register,
  Unregister, Send and Receive calls changes it, whatever the calls return: after the
  run the channel is the one Open returned, its state is PUBLISHER, hence neither
  PUBLISHER_SUBSCRIBER nor SUBSCRIBER, and Unregister returns the error of its state
  check.
\<close>

theorem state_never_changes:
  "UA_PubSubChannelEthernet_open e cfg h = (Some ch, h2, evs) \<Longrightarrow>
   state ch = UA_PUBSUB_CHANNEL_PUB
   \<and> fst (run ch cs) = ch
   \<and> state (fst (run ch cs)) = UA_PUBSUB_CHANNEL_PUB
   \<and> state (fst (run ch cs)) \<noteq> UA_PUBSUB_CHANNEL_PUB_SUB
   \<and> state (fst (run ch cs)) \<noteq> UA_PUBSUB_CHANNEL_SUB
   \<and> UA_PubSubChannelEthernet_unregist (fst (run ch cs)) =
       (UA_STATUSCODE_BADINTERNALERROR, ch,
        [UA_LOG UA_LOGLEVEL_ERROR ''PubSub Connection unregist failed.'' []])"
  using open_state [of e cfg h ch h2 evs] run_channel [of ch cs] unregist_in_PUB [of ch]
  by simp

theorem state_never_changes_witness:
  "UA_PubSubChannelEthernet_open example_env example_config example_heap =
     (Some example_channel, \<lparr>live = [1, 0], capacity = 2, fresh = 2\<rparr>,
      [UA_LOG UA_LOGLEVEL_INFO ''Open PubSub ethernet connection.'' [],
       UA_LOG UA_LOGLEVEL_DEBUG ''Specified Interface Name = %.*s'' [''eth0''],
       UA_LOG UA_LOGLEVEL_DEBUG ''Specified Network Url = %.*s''
         [''opc.eth://01-00-5E-00-00-01:100.5''],
       Netif_name_to_index ''xe''])
   \<and> run example_channel
        [(example_env, Regist), (example_env, Send [1, 2, 3]), (example_env, Unregist),
         (example_env, Receive 1000)] =
       (example_channel,
        [UA_STATUSCODE_GOOD, UA_STATUSCODE_GOOD,
         UA_STATUSCODE_BADINTERNALERROR, UA_STATUSCODE_GOOD])
   \<and> state example_channel = UA_PUBSUB_CHANNEL_PUB
   \<and> fst (UA_PubSubChannelEthernet_unregist example_channel) = UA_STATUSCODE_BADINTERNALERROR"
proof -
  let ?cs = "[(example_env, Regist), (example_env, Send [1, 2, 3]), (example_env, Unregist),
              (example_env, Receive 1000)]"
  note inv = state_never_changes [OF open_example, of ?cs]
  from inv have st: "state example_channel = UA_PUBSUB_CHANNEL_PUB" by blast
  from inv have ch: "fst (run example_channel ?cs) = example_channel" by blast
  from inv ch have un: "fst (UA_PubSubChannelEthernet_unregist example_channel)
                   = UA_STATUSCODE_BADINTERNALERROR"
    by (metis fst_conv)
  have outs: "snd (run example_channel ?cs) =
      [UA_STATUSCODE_GOOD, UA_STATUSCODE_GOOD,
       UA_STATUSCODE_BADINTERNALERROR, UA_STATUSCODE_GOOD]"
    by (simp add: send_example UA_PubSubChannelEthernet_regist_def
        UA_PubSubChannelEthernet_unregist_def UA_PubSubChannelEthernet_receive_def st)
  from ch outs have "run example_channel ?cs =
      (example_channel,
       [UA_STATUSCODE_GOOD, UA_STATUSCODE_GOOD,
        UA_STATUSCODE_BADINTERNALERROR, UA_STATUSCODE_GOOD])"
    by (simp only: prod_eq_iff fst_conv snd_conv simp_thms)
  moreover note un
  ultimately show ?thesis using st open_example by simp
qed

subsection \<open>Parsing a hardware address\<close>

lemma readNumber_loop_eq:
  "readNumber_loop cs 16 (of_nat m) k =
     (k + length (takeWhile (is_digit 16) cs),
      of_nat (foldl (\<lambda>n c. n * 16 + the (digit_of c)) m (takeWhile (is_digit 16) cs)))"
proof (induction cs arbitrary: m k)
  case Nil
  show ?case by simp
next
  case (Cons c cs)
  show ?case
  proof (cases "is_digit 16 c")
    case False
    then show ?thesis by simp
  next
    case True
    have "(of_nat m :: UA_UInt32) * of_nat 16 + of_nat (the (digit_of c))
            = of_nat (m * 16 + the (digit_of c))"
      by simp
    then show ?thesis using True Cons.IH [of "m * 16 + the (digit_of c)" "k + 1"]
      by simp
  qed
qed

lemma UA_readNumberWithBase_eq:
  "UA_readNumberWithBase s 16 =
     (length (takeWhile (is_digit 16) s), of_nat (group_value (takeWhile (is_digit 16) s)))"
  using readNumber_loop_eq [of s 0 0] by (simp add: UA_readNumberWithBase_def group_value_def)

lemma hyphen_not_digit: "\<not> is_digit 16 CHR ''-''"
  by (simp add: is_digit_def digit_of_def)

lemma takeWhile_group:
  "list_all (is_digit 16) g \<Longrightarrow> takeWhile (is_digit 16) (g @ CHR ''-'' # r) = g"
  by (induction g) (simp_all add: hyphen_not_digit)

lemma takeWhile_all: "list_all (is_digit 16) g \<Longrightarrow> takeWhile (is_digit 16) g = g"
  by (induction g) simp_all

text \<open>One turn of the loop, on the text that is left.\<close>

lemma parse_loop_turn:
  assumes "idx < ETH_ALEN" and "cur \<le> length target"
  shows "parse_loop target cur idx mac =
     (let s = drop cur target; g = takeWhile (is_digit 16) s;
          val = (of_nat (group_value g) :: UA_UInt32) in
      if g = [] \<or> val > 0xff then (Inl UA_STATUSCODE_BADINTERNALERROR, mac)
      else if length g = length s then (Inr idx, mac[idx := ucast val])
      else if s ! length g \<noteq> CHR ''-''
        then (Inl UA_STATUSCODE_BADINTERNALERROR, mac[idx := ucast val])
      else parse_loop target (cur + length g + 1) (idx + 1) (mac[idx := ucast val]))"
proof -
  let ?s = "drop cur target"
  let ?g = "takeWhile (is_digit 16) ?s"
  have len: "length ?g \<le> length ?s" by (rule length_takeWhile_le)
  have a: "(cur + length ?g = length target) = (length ?g = length ?s)"
    using assms(2) by auto
  have b: "target ! (cur + length ?g) = ?s ! length ?g"
    using assms(2) by simp
  show ?thesis
    using assms(1) a b
    by (subst parse_loop.simps) (simp add: UA_readNumberWithBase_eq Let_def)
qed

lemma small_value_fits:
  "v \<le> 255 \<Longrightarrow> (of_nat v :: UA_UInt32) \<le> 0xff"
  by (simp add: word_le_nat_alt unat_of_nat take_bit_eq_mod)

lemma byte_of_value: "(ucast (of_nat v :: UA_UInt32) :: UA_Byte) = of_nat v"
  by transfer simp

lemma join_hyphen_Cons:
  "gs \<noteq> [] \<Longrightarrow> join_hyphen (g # gs) = g @ CHR ''-'' # join_hyphen gs"
  by (cases gs) simp_all

text \<open>The three ways a turn goes on a group within the byte range.\<close>

lemma parse_loop_last:
  assumes "idx < ETH_ALEN" and "cur \<le> length target"
    and "takeWhile (is_digit 16) (drop cur target) = g" and "g \<noteq> []"
    and "(of_nat (group_value g) :: UA_UInt32) \<le> 0xff"
    and "length g = length (drop cur target)"
  shows "parse_loop target cur idx mac = (Inr idx, mac[idx := of_nat (group_value g)])"
  using assms(3-6) unfolding parse_loop_turn [OF assms(1,2)] Let_def
  by (simp add: not_less byte_of_value del: length_drop)

lemma parse_loop_next:
  assumes "idx < ETH_ALEN" and "cur \<le> length target"
    and "takeWhile (is_digit 16) (drop cur target) = g" and "g \<noteq> []"
    and "(of_nat (group_value g) :: UA_UInt32) \<le> 0xff"
    and "length g \<noteq> length (drop cur target)"
    and "drop cur target ! length g = CHR ''-''"
  shows "parse_loop target cur idx mac =
           parse_loop target (cur + length g + 1) (idx + 1) (mac[idx := of_nat (group_value g)])"
proof -
  have nv: "\<not> (0xff :: UA_UInt32) < of_nat (group_value g)"
    using assms(5) by (simp add: not_less)
  show ?thesis
    using assms(3,4,6,7) nv unfolding parse_loop_turn [OF assms(1,2)] Let_def
    by (simp add: byte_of_value del: length_drop)
qed

lemma parse_loop_Inr_cases:
  assumes "idx < ETH_ALEN" and "cur \<le> length target"
    and "takeWhile (is_digit 16) (drop cur target) = g"
    and "parse_loop target cur idx mac = (Inr k, mac2)"
  shows "g \<noteq> [] \<and> (of_nat (group_value g) :: UA_UInt32) \<le> 0xff \<and>
         (if length g = length (drop cur target) then k = idx
          else drop cur target ! length g = CHR ''-'' \<and>
               parse_loop target (cur + length g + 1) (idx + 1) (mac[idx := of_nat (group_value g)])
                 = (Inr k, mac2))"
  using assms(3,4) unfolding parse_loop_turn [OF assms(1,2)] Let_def
  by (auto simp add: not_less byte_of_value simp del: length_drop split: if_splits)


lemma parse_loop_join:
  assumes "gs \<noteq> []" and "idx + length gs = ETH_ALEN"
    and "list_all hex_group gs" and "list_all (\<lambda>g. group_value g \<le> 255) gs"
    and "cur \<le> length target" and "drop cur target = join_hyphen gs"
    and "length mac = ETH_ALEN"
  shows "parse_loop target cur idx mac =
           (Inr (ETH_ALEN - 1), take idx mac @ map (\<lambda>g. of_nat (group_value g)) gs)"
  using assms
proof (induction gs arbitrary: cur idx mac)
  case Nil
  then show ?case by simp
next
  case (Cons g gs)
  from Cons.prems have idx: "idx < ETH_ALEN" by simp
  from Cons.prems have g: "g \<noteq> []" "list_all (is_digit 16) g"
    and val: "(of_nat (group_value g) :: UA_UInt32) \<le> 0xff"
    by (simp_all add: hex_group_def small_value_fits)
  let ?b = "of_nat (group_value g) :: UA_Byte"
  note cur = Cons.prems(5)
  show ?case
  proof (cases "gs = []")
    case True
    with Cons.prems have s: "drop cur target = g" and i: "idx + 1 = ETH_ALEN" by simp_all
    have tw: "takeWhile (is_digit 16) (drop cur target) = g"
      using s g(2) by (simp add: takeWhile_all)
    have len: "length g = length (drop cur target)" using s by simp
    have upd: "mac[idx := ?b] = take idx mac @ [?b]"
      using Cons.prems(7) i by (simp add: upd_conv_take_nth_drop)
    have "parse_loop target cur idx mac = (Inr idx, mac[idx := ?b])"
      using idx cur tw g(1) val len by (rule parse_loop_last)
    moreover have "idx = ETH_ALEN - 1" using i by simp
    ultimately show ?thesis using upd True by simp
  next
    case False
    with Cons.prems have s: "drop cur target = g @ CHR ''-'' # join_hyphen gs"
      by (simp add: join_hyphen_Cons)
    have tw: "takeWhile (is_digit 16) (drop cur target) = g"
      using s g(2) by (simp add: takeWhile_group)
    have lt: "length g < length (drop cur target)" using s by simp
    then have cur2: "cur + length g + 1 \<le> length target" by simp
    have rest: "drop (cur + length g + 1) target = join_hyphen gs"
    proof -
      have "drop (cur + length g + 1) target = drop (length g + 1) (drop cur target)"
        by (simp add: add.commute add.left_commute)
      also have "\<dots> = join_hyphen gs" using s by simp
      finally show ?thesis .
    qed
    have mac2: "length (mac[idx := ?b]) = ETH_ALEN" using Cons.prems(7) by simp
    have n: "idx + 1 + length gs = ETH_ALEN" using Cons.prems(2) by simp
    have a3: "list_all hex_group gs" and a4: "list_all (\<lambda>g. group_value g \<le> 255) gs"
      using Cons.prems(3,4) by simp_all
    have ih: "parse_loop target (cur + length g + 1) (idx + 1) (mac[idx := ?b]) =
        (Inr (ETH_ALEN - 1),
         take (idx + 1) (mac[idx := ?b]) @ map (\<lambda>g. of_nat (group_value g)) gs)"
      using False n a3 a4 cur2 rest mac2 by (rule Cons.IH)
    have tk: "take (idx + 1) (mac[idx := ?b]) = take idx mac @ [?b]"
      using idx Cons.prems(7) by (simp add: take_Suc_conv_app_nth)
    have nth: "drop cur target ! length g = CHR ''-''" using s by (simp add: nth_append)
    have ne: "length g \<noteq> length (drop cur target)" using lt by simp
    have "parse_loop target cur idx mac =
            parse_loop target (cur + length g + 1) (idx + 1) (mac[idx := ?b])"
      using idx cur tw g(1) val ne nth by (rule parse_loop_next)
    with ih tk show ?thesis by simp
  qed
qed

lemma takeWhile_hex_group:
  "takeWhile (is_digit 16) s \<noteq> [] \<Longrightarrow> hex_group (takeWhile (is_digit 16) s)"
  by (simp add: hex_group_def list_all_iff) (meson set_takeWhileD)

lemma takeWhile_whole:
  "length (takeWhile P s) = length s \<Longrightarrow> takeWhile P s = s"
  by (metis append_eq_conv_conj takeWhile_dropWhile_id take_all order_refl)

lemma parse_loop_Inr:
  "parse_loop target cur idx mac = (Inr k, mac2) \<Longrightarrow> cur \<le> length target \<Longrightarrow>
   k < ETH_ALEN \<Longrightarrow>
   \<exists>gs. gs \<noteq> [] \<and> idx + length gs = k + 1 \<and> list_all hex_group gs
        \<and> list_all (\<lambda>g. (of_nat (group_value g) :: UA_UInt32) \<le> 0xff) gs
        \<and> drop cur target = join_hyphen gs"
proof (induction "ETH_ALEN - idx" arbitrary: cur idx mac)
  case 0
  then have "\<not> idx < ETH_ALEN" by simp
  with "0.prems" show ?case by (subst (asm) parse_loop.simps) simp
next
  case (Suc n)
  then have idx: "idx < ETH_ALEN" by simp
  let ?s = "drop cur target"
  let ?g = "takeWhile (is_digit 16) ?s"
  note c = parse_loop_Inr_cases [OF idx Suc.prems(2) refl Suc.prems(1)]
  from c have g: "?g \<noteq> []" and val: "(of_nat (group_value ?g) :: UA_UInt32) \<le> 0xff"
    by blast+
  have hg: "hex_group ?g" using g by (rule takeWhile_hex_group)
  show ?case
  proof (cases "length ?g = length ?s")
    case True
    then have eq: "?g = ?s" by (rule takeWhile_whole)
    have js: "?s = join_hyphen [?g]" unfolding join_hyphen.simps using eq by (rule sym)
    from c True have "k = idx" by simp
    then have "[?g] \<noteq> [] \<and> idx + length [?g] = k + 1" by simp
    moreover have "list_all hex_group [?g]" using hg by simp
    moreover have "list_all (\<lambda>g. (of_nat (group_value g) :: UA_UInt32) \<le> 0xff) [?g]"
      using val by simp
    ultimately show ?thesis using js by blast
  next
    case False
    with c have sep: "?s ! length ?g = CHR ''-''"
      and rec: "parse_loop target (cur + length ?g + 1) (idx + 1)
                  (mac[idx := of_nat (group_value ?g)]) = (Inr k, mac2)"
      by simp_all
    have lt: "length ?g < length ?s"
      using False length_takeWhile_le [of "is_digit 16" ?s] by simp
    then have cur2: "cur + length ?g + 1 \<le> length target" by simp
    have n: "n = ETH_ALEN - (idx + 1)" using Suc.hyps(2) by simp
    from Suc.hyps(1) [OF n rec cur2 Suc.prems(3)]
    obtain gs where gs: "gs \<noteq> []" "idx + 1 + length gs = k + 1" "list_all hex_group gs"
      "list_all (\<lambda>g. (of_nat (group_value g) :: UA_UInt32) \<le> 0xff) gs"
      "drop (cur + length ?g + 1) target = join_hyphen gs"
      by blast
    have "?s = take (length ?g) ?s @ ?s ! length ?g # drop (Suc (length ?g)) ?s"
      using lt by (rule id_take_nth_drop)
    moreover have "take (length ?g) ?s = ?g"
      by (metis append_eq_conv_conj takeWhile_dropWhile_id)
    moreover have "drop (Suc (length ?g)) ?s = drop (cur + length ?g + 1) target"
      by (simp add: add.commute add.left_commute)
    ultimately have "?s = ?g @ CHR ''-'' # join_hyphen gs" using sep gs(5) by simp
    also have "\<dots> = join_hyphen (?g # gs)"
      using join_hyphen_Cons [OF gs(1), of ?g] by (rule sym)
    finally have js: "?s = join_hyphen (?g # gs)" .
    have "?g # gs \<noteq> [] \<and> idx + length (?g # gs) = k + 1" using gs(2) by simp
    moreover have "list_all hex_group (?g # gs)" using hg gs(3) by simp
    moreover have "list_all (\<lambda>g. (of_nat (group_value g) :: UA_UInt32) \<le> 0xff) (?g # gs)"
      using val gs(4) by simp
    ultimately show ?thesis using js by blast
  qed
qed

lemma digit_of_bound: "is_digit 16 c \<Longrightarrow> the (digit_of c) < 16"
  by (auto simp: is_digit_def split: option.splits)

lemma foldl_value_bound:
  "list_all (is_digit 16) g \<Longrightarrow>
   foldl (\<lambda>n c. n * 16 + the (digit_of c)) m g < (m + 1) * 16 ^ length g"
proof (induction g arbitrary: m)
  case Nil
  show ?case by simp
next
  case (Cons c g)
  then have d: "the (digit_of c) < 16" and g: "list_all (is_digit 16) g"
    by (simp_all add: digit_of_bound)
  have "foldl (\<lambda>n c. n * 16 + the (digit_of c)) (m * 16 + the (digit_of c)) g
          < (m * 16 + the (digit_of c) + 1) * 16 ^ length g"
    using g by (rule Cons.IH)
  also have "\<dots> \<le> ((m + 1) * 16) * 16 ^ length g"
    using d by (intro mult_right_mono) simp_all
  finally show ?case by (simp add: algebra_simps)
qed

lemma group_value_bound: "hex_group g \<Longrightarrow> group_value g < 16 ^ length g"
  using foldl_value_bound [of g 0] by (simp add: hex_group_def group_value_def)

lemma short_group_value:
  assumes "hex_group g" and "length g \<le> 8"
    and "(of_nat (group_value g) :: UA_UInt32) \<le> 0xff"
  shows "group_value g \<le> 255"
proof -
  have "group_value g < 16 ^ length g" using assms(1) by (rule group_value_bound)
  also have "(16 :: nat) ^ length g \<le> 16 ^ 8" using assms(2) by (intro power_increasing) simp_all
  finally have "group_value g < 2 ^ 32" by simp
  then have "unat (of_nat (group_value g) :: UA_UInt32) = group_value g"
    by (simp add: unat_of_nat take_bit_eq_mod)
  with assms(3) show ?thesis by (simp add: word_le_nat_alt)
qed

lemma parse_join_hyphen:
  assumes "length gs = ETH_ALEN" and "list_all hex_group gs"
    and "list_all (\<lambda>g. group_value g \<le> 255) gs" and "length mac = ETH_ALEN"
  shows "UA_parseHardwareAddress (join_hyphen gs) mac =
           (UA_STATUSCODE_GOOD, map (\<lambda>g. of_nat (group_value g)) gs)"
proof -
  have ne: "gs \<noteq> []" using assms(1) by (auto simp: ETH_ALEN_def)
  have "parse_loop (join_hyphen gs) 0 0 mac =
          (Inr (ETH_ALEN - 1), take 0 mac @ map (\<lambda>g. of_nat (group_value g)) gs)"
    using ne _ assms(2,3) _ _ assms(4) by (rule parse_loop_join) (simp_all add: assms(1))
  then show ?thesis by (simp add: UA_parseHardwareAddress_def)
qed

lemma parse_loop_Inl:
  "parse_loop target cur idx mac = (Inl st, mac2) \<Longrightarrow> cur \<le> length target \<Longrightarrow>
   st = UA_STATUSCODE_BADINTERNALERROR"
proof (induction "ETH_ALEN - idx" arbitrary: cur idx mac)
  case 0
  then have "\<not> idx < ETH_ALEN" by simp
  with "0.prems" show ?case by (subst (asm) parse_loop.simps) simp
next
  case (Suc n)
  then have idx: "idx < ETH_ALEN" by simp
  let ?s = "drop cur target"
  let ?g = "takeWhile (is_digit 16) ?s"
  let ?val = "of_nat (group_value ?g) :: UA_UInt32"
  note turn = parse_loop_turn [OF idx Suc.prems(2), of mac]
  show ?case
  proof (cases "?g = [] \<or> ?val > 0xff \<or> length ?g = length ?s \<or> ?s ! length ?g \<noteq> CHR ''-''")
    case True
    with Suc.prems(1) show ?thesis unfolding turn Let_def
      by (auto simp del: length_drop split: if_splits)
  next
    case False
    with Suc.prems(1)
    have rec: "parse_loop target (cur + length ?g + 1) (idx + 1) (mac[idx := ucast ?val])
                 = (Inl st, mac2)"
      unfolding turn Let_def by (simp del: length_drop)
    have "length ?g < length ?s"
      using False length_takeWhile_le [of "is_digit 16" ?s] by simp
    then have cur2: "cur + length ?g + 1 \<le> length target" by simp
    have n: "n = ETH_ALEN - (idx + 1)" using Suc.hyps(2) by simp
    from Suc.hyps(1) [OF n rec cur2] show ?thesis .
  qed
qed

lemma parse_good_shape:
  assumes "fst (UA_parseHardwareAddress s mac) = UA_STATUSCODE_GOOD"
  shows "\<exists>gs. length gs = ETH_ALEN \<and> list_all hex_group gs
           \<and> list_all (\<lambda>g. length g \<le> 8 \<longrightarrow> group_value g \<le> 255) gs
           \<and> s = join_hyphen gs"
proof -
  obtain r mac2 where r: "parse_loop s 0 0 mac = (r, mac2)" by (cases "parse_loop s 0 0 mac")
  with assms parse_loop_Inl [of s 0 0 mac _ mac2] have "r = Inr (ETH_ALEN - 1)"
    by (cases r) (auto simp: UA_parseHardwareAddress_def split: if_splits)
  with r have "parse_loop s 0 0 mac = (Inr (ETH_ALEN - 1), mac2)" by simp
  from parse_loop_Inr [OF this]
  obtain gs where gs: "gs \<noteq> []" "0 + length gs = ETH_ALEN - 1 + 1" "list_all hex_group gs"
    "list_all (\<lambda>g. (of_nat (group_value g) :: UA_UInt32) \<le> 0xff) gs"
    "drop 0 s = join_hyphen gs"
    by (auto simp: ETH_ALEN_def)
  have "list_all (\<lambda>g. length g \<le> 8 \<longrightarrow> group_value g \<le> 255) gs"
    using gs(3,4) by (auto simp: list_all_iff intro: short_group_value)
  with gs show ?thesis by (intro exI [of _ gs]) (simp add: ETH_ALEN_def)
qed

text \<open>The canonical pairs of digits are groups, and they write the byte.\<close>

lemma digit_of_hex_char: "n < 16 \<Longrightarrow> digit_of (hex_char upper n) = Some n"
  by (auto simp: digit_of_def hex_char_def Let_def)

lemma byte_nibbles: "unat (b :: UA_Byte) div 16 < 16" "unat b mod 16 < 16" "unat b \<le> 255"
  using unsigned_less [of b, where ?'a = nat] by simp_all

lemma hex_group_pair: "hex_group (hex_pair upper b)"
  by (simp add: hex_group_def hex_pair_def is_digit_def digit_of_hex_char byte_nibbles)

lemma group_value_pair: "group_value (hex_pair upper b) = unat b"
  by (simp add: group_value_def hex_pair_def digit_of_hex_char byte_nibbles)

text \<open>
  C2. For every 6-byte array, writing it as six hyphen-separated pairs of hexadecimal
  digits (in either case) and parsing the text with \<^verbatim>\<open>UA_parseHardwareAddress\<close> into a
  6-byte destination succeeds and yields exactly the bytes of the array.
\<close>

theorem format_parse_roundtrip:
  assumes "length a = ETH_ALEN" and "length mac = ETH_ALEN"
  shows "UA_parseHardwareAddress (format_mac upper a) mac = (UA_STATUSCODE_GOOD, a)"
proof -
  let ?gs = "map (hex_pair upper) a"
  note b = byte_nibbles(3)
  have "UA_parseHardwareAddress (join_hyphen ?gs) mac =
          (UA_STATUSCODE_GOOD, map (\<lambda>g. of_nat (group_value g)) ?gs)"
    using assms by (intro parse_join_hyphen)
      (simp_all add: list_all_iff hex_group_pair group_value_pair b)
  moreover have "map (\<lambda>g. of_nat (group_value g)) ?gs = a"
    by (simp add: group_value_pair comp_def)
  ultimately show ?thesis by (simp add: format_mac_def)
qed

theorem format_parse_roundtrip_witness:
  "length [0x01, 0x23, 0x45, 0x67, 0x89, 0xab :: UA_Byte] = ETH_ALEN
   \<and> format_mac True [0x01, 0x23, 0x45, 0x67, 0x89, 0xab] = ''01-23-45-67-89-AB''
   \<and> UA_parseHardwareAddress ''01-23-45-67-89-AB'' [0, 0, 0, 0, 0, 0]
       = (UA_STATUSCODE_GOOD, [0x01, 0x23, 0x45, 0x67, 0x89, 0xab])"
proof -
  have f: "format_mac True [0x01, 0x23, 0x45, 0x67, 0x89, 0xab] = ''01-23-45-67-89-AB''"
    by code_simp
  have len: "length [0x01, 0x23, 0x45, 0x67, 0x89, 0xab :: UA_Byte] = ETH_ALEN"
    by (rule length_six)
  have len0: "length [0, 0, 0, 0, 0, 0 :: UA_Byte] = ETH_ALEN"
    by (rule length_six)
  show ?thesis
    using format_parse_roundtrip [OF len len0, of True] len
    by (simp only: f simp_thms)
qed

text \<open>
  C5, amended. Parse succeeds on every text of exactly six groups of one or more
  hexadecimal digits, each of value at most 255, separated by single hyphens, and yields
  the values; a text on which Parse succeeds consists of exactly six non-empty groups of
  hexadecimal digits separated by single hyphens, every group of at most 8 digits having
  a value of at most 255; otherwise Parse returns the error status, as it does on too
  few groups, a wrong separator, a character that is no hexadecimal digit, a trailing
  separator, trailing garbage, an empty group and a value beyond one byte.
\<close>

theorem parse_hardware_address_shape:
  "(\<forall>gs. length gs = ETH_ALEN \<and> list_all hex_group gs
          \<and> list_all (\<lambda>g. group_value g \<le> 255) gs \<and> length mac = ETH_ALEN \<longrightarrow>
        UA_parseHardwareAddress (join_hyphen gs) mac
          = (UA_STATUSCODE_GOOD, map (\<lambda>g. of_nat (group_value g)) gs))
   \<and> (fst (UA_parseHardwareAddress s mac) = UA_STATUSCODE_GOOD \<longrightarrow>
        (\<exists>gs. length gs = ETH_ALEN \<and> list_all hex_group gs
              \<and> list_all (\<lambda>g. length g \<le> 8 \<longrightarrow> group_value g \<le> 255) gs
              \<and> s = join_hyphen gs))
   \<and> (fst (UA_parseHardwareAddress s mac) \<noteq> UA_STATUSCODE_GOOD \<longrightarrow>
        fst (UA_parseHardwareAddress s mac) = UA_STATUSCODE_BADINTERNALERROR)
   \<and> fst (UA_parseHardwareAddress ''01-23-45'' [0, 0, 0, 0, 0, 0])
       = UA_STATUSCODE_BADINTERNALERROR
   \<and> fst (UA_parseHardwareAddress ''01:23:45:67:89:AB'' [0, 0, 0, 0, 0, 0])
       = UA_STATUSCODE_BADINTERNALERROR
   \<and> fst (UA_parseHardwareAddress ''1g-23-45-67-89-ab'' [0, 0, 0, 0, 0, 0])
       = UA_STATUSCODE_BADINTERNALERROR
   \<and> fst (UA_parseHardwareAddress ''01-23-45-67-89-AB-'' [0, 0, 0, 0, 0, 0])
       = UA_STATUSCODE_BADINTERNALERROR
   \<and> fst (UA_parseHardwareAddress ''01-23-45-67-89-AB-CD'' [0, 0, 0, 0, 0, 0])
       = UA_STATUSCODE_BADINTERNALERROR
   \<and> fst (UA_parseHardwareAddress ''01-23-45-67-89-AB '' [0, 0, 0, 0, 0, 0])
       = UA_STATUSCODE_BADINTERNALERROR
   \<and> fst (UA_parseHardwareAddress ''01--23-45-67-89-AB'' [0, 0, 0, 0, 0, 0])
       = UA_STATUSCODE_BADINTERNALERROR
   \<and> fst (UA_parseHardwareAddress ''100-23-45-67-89-AB'' [0, 0, 0, 0, 0, 0])
       = UA_STATUSCODE_BADINTERNALERROR"
proof -
  have a: "UA_parseHardwareAddress (join_hyphen gs) mac
             = (UA_STATUSCODE_GOOD, map (\<lambda>g. of_nat (group_value g)) gs)"
    if "length gs = ETH_ALEN \<and> list_all hex_group gs
        \<and> list_all (\<lambda>g. group_value g \<le> 255) gs \<and> length mac = ETH_ALEN" for gs
    using that by (intro parse_join_hyphen) simp_all
  have b: "\<exists>gs. length gs = ETH_ALEN \<and> list_all hex_group gs
              \<and> list_all (\<lambda>g. length g \<le> 8 \<longrightarrow> group_value g \<le> 255) gs
              \<and> s = join_hyphen gs"
    if "fst (UA_parseHardwareAddress s mac) = UA_STATUSCODE_GOOD"
    using that by (rule parse_good_shape)
  have c: "fst (UA_parseHardwareAddress s mac) = UA_STATUSCODE_BADINTERNALERROR"
    if "fst (UA_parseHardwareAddress s mac) \<noteq> UA_STATUSCODE_GOOD"
    using that by (cases "fst (UA_parseHardwareAddress s mac)") simp_all
  have e1: "fst (UA_parseHardwareAddress ''01-23-45'' [0, 0, 0, 0, 0, 0])
              = UA_STATUSCODE_BADINTERNALERROR"
    by code_simp
  have e2: "fst (UA_parseHardwareAddress ''01:23:45:67:89:AB'' [0, 0, 0, 0, 0, 0])
              = UA_STATUSCODE_BADINTERNALERROR"
    by code_simp
  have e3: "fst (UA_parseHardwareAddress ''1g-23-45-67-89-ab'' [0, 0, 0, 0, 0, 0])
              = UA_STATUSCODE_BADINTERNALERROR"
    by code_simp
  have e4: "fst (UA_parseHardwareAddress ''01-23-45-67-89-AB-'' [0, 0, 0, 0, 0, 0])
              = UA_STATUSCODE_BADINTERNALERROR"
    by code_simp
  have e5: "fst (UA_parseHardwareAddress ''01-23-45-67-89-AB-CD'' [0, 0, 0, 0, 0, 0])
              = UA_STATUSCODE_BADINTERNALERROR"
    by code_simp
  have e6: "fst (UA_parseHardwareAddress ''01-23-45-67-89-AB '' [0, 0, 0, 0, 0, 0])
              = UA_STATUSCODE_BADINTERNALERROR"
    by code_simp
  have e7: "fst (UA_parseHardwareAddress ''01--23-45-67-89-AB'' [0, 0, 0, 0, 0, 0])
              = UA_STATUSCODE_BADINTERNALERROR"
    by code_simp
  have e8: "fst (UA_parseHardwareAddress ''100-23-45-67-89-AB'' [0, 0, 0, 0, 0, 0])
              = UA_STATUSCODE_BADINTERNALERROR"
    by code_simp
  from a b c e1 e2 e3 e4 e5 e6 e7 e8 show ?thesis by blast
qed

theorem parse_hardware_address_shape_witness:
  "UA_parseHardwareAddress ''1-002-a-B-0c-ff'' [0, 0, 0, 0, 0, 0]
     = (UA_STATUSCODE_GOOD, [0x01, 0x02, 0x0a, 0x0b, 0x0c, 0xff])"
proof -
  let ?gs = "[''1'', ''002'', ''a'', ''B'', ''0c'', ''ff'']"
  have v: "map group_value ?gs = [1, 2, 10, 11, 12, 255]"
    by (simp add: group_value_def digit_of_def)
  have h: "list_all hex_group ?gs"
    by (simp add: hex_group_def is_digit_def digit_of_def)
  have "length ?gs = ETH_ALEN \<and> list_all hex_group ?gs
        \<and> list_all (\<lambda>g. group_value g \<le> 255) ?gs
        \<and> length [0, 0, 0, 0, 0, 0 :: UA_Byte] = ETH_ALEN"
    using h v by (simp add: ETH_ALEN_def)
  with parse_hardware_address_shape [of "[0, 0, 0, 0, 0, 0]"]
  have "UA_parseHardwareAddress (join_hyphen ?gs) [0, 0, 0, 0, 0, 0]
          = (UA_STATUSCODE_GOOD, map (\<lambda>g. of_nat (group_value g)) ?gs)"
    by blast
  moreover have "map (\<lambda>g. of_nat (group_value g) :: UA_Byte) ?gs = map of_nat (map group_value ?gs)"
    by simp
  ultimately show ?thesis by (simp only: v) simp
qed

text \<open>
  The claim as stated fails on \<^verbatim>\<open>001-23-45-67-89-AB\<close>: its first group has three digits,
  so it is not a text of six groups of one or two digits, and Parse succeeds on it.
\<close>

theorem parse_three_digit_group_counterexample:
  "\<not> spec_address_text ''001-23-45-67-89-AB''
   \<and> UA_parseHardwareAddress ''001-23-45-67-89-AB'' [0, 0, 0, 0, 0, 0]
       = (UA_STATUSCODE_GOOD, [0x01, 0x23, 0x45, 0x67, 0x89, 0xab])"
  by code_simp

end
